theory Spec2Isabelle
  imports Complex_Main "HOL-Library.Sublist"
begin

section \<open>The notebook and the world it runs in\<close>

text \<open>
  The repository is one Jupyter notebook,
  \<^verbatim>\<open>tutorial/Training a new Transformer Language Model from scratch.ipynb\<close>.
  Its code cells contain no function, class, loop or branch of their own: every
  statement is a shell escape (\<^verbatim>\<open>!cmd\<close>), an import, or a call into \<^verbatim>\<open>pathlib\<close>,
  \<^verbatim>\<open>tokenizers\<close>, \<^verbatim>\<open>torch\<close> or \<^verbatim>\<open>transformers\<close>.  What the notebook itself decides is
  which calls are made, in which order, with which arguments, and what happens when
  one of them fails.  The embedding therefore keeps the libraries and the shell as a
  parameter (the \<open>world\<close>) and makes the notebook a function from a world to the
  history of its interactions and its outcome.
\<close>

subsection \<open>Python values\<close>

text \<open>
  The values the notebook writes down or passes on.  An object made by a library is
  an opaque handle \<open>PyObj\<close>.  The only float literal of the notebook, \<^verbatim>\<open>0.15\<close>, is kept
  as the decimal fraction written in the source; the notebook does no arithmetic.
\<close>

datatype val =
    PyNone
  | PyBool bool
  | PyInt int
  | PyFloat rat
  | PyStr string
  | PyList "val list"
  | PyTuple "val list"
  | PyObj nat

text \<open>
  An exception: one raised by a library, with whatever it carries, or the
  interpreter's \<^verbatim>\<open>NameError\<close> for a name that is not bound.
\<close>

datatype exn = Exception string | NameError string

subsection \<open>Interactions\<close>

text \<open>
  A library interaction as it is spelled in the source: the callee text
  (\<^verbatim>\<open>tokenizer.train\<close>, \<^verbatim>\<open>RobertaConfig\<close>), the object the callee is bound to when it is
  a method or a callable object, the positional arguments and the keyword arguments
  in source order.
\<close>

datatype call =
    Import string "string list"
  | Call string "val option" "val list" "(string \<times> val) list"
  | Get_attr val string
  | Set_attr val string val

text \<open>
  What has happened so far: a shell command with its exit status, the listing
  \<^verbatim>\<open>[str(x) for x in Path(d).glob(p)]\<close> with its result, a library interaction with its
  result.  A result \<open>Inl e\<close> is exception \<open>e\<close> raised by the library.
\<close>

datatype event =
    Ran string nat
  | Globbed string string "exn + string list"
  | Lib call "exn + val"

text \<open>
  The world answers each interaction, knowing everything that happened before.
  Nothing is assumed about the answers.
\<close>

record world =
  exit_status :: "event list \<Rightarrow> string \<Rightarrow> nat"
  glob :: "event list \<Rightarrow> string \<Rightarrow> string \<Rightarrow> exn + string list"
  library :: "event list \<Rightarrow> call \<Rightarrow> exn + val"

subsection \<open>Running statements\<close>

text \<open>
  The kernel that runs the cells keeps the variables of the notebook (the cells
  share one namespace) and the history of interactions.  Names bound by an import
  are not kept: each is used only in the cell that imports it, after the import, so
  it is bound wherever it is used.
\<close>

record kernel =
  names :: "string \<Rightarrow> val option"
  history :: "event list"

text \<open>
  A piece of notebook code takes the world and the kernel and gives its result, or
  the exception that ended it, with the new kernel.
\<close>

type_synonym 'a py = "world \<Rightarrow> kernel \<Rightarrow> (exn + 'a) \<times> kernel"

definition py_return :: "'a \<Rightarrow> 'a py" where
  "py_return x = (\<lambda>w k. (Inr x, k))"

text \<open>
  Statement sequencing.  The notebook has no \<^verbatim>\<open>try\<close>: an exception ends the
  statements that follow.  Cells are run top to bottom, and a cell that raised stops
  the run.  What a cell prints or displays (the output of a command, the value of
  its last expression, a traceback) is left out.
\<close>

definition py_bind :: "'a py \<Rightarrow> ('a \<Rightarrow> 'b py) \<Rightarrow> 'b py" where
  "py_bind m f = (\<lambda>w k. case m w k of
       (Inl e, k') \<Rightarrow> (Inl e, k')
     | (Inr x, k') \<Rightarrow> f x w k')"

definition py_then :: "'a py \<Rightarrow> 'b py \<Rightarrow> 'b py" where
  "py_then m n = py_bind m (\<lambda>_. n)"

text \<open>Reading a variable raises \<^verbatim>\<open>NameError\<close> when it is not bound; \<^verbatim>\<open>x = v\<close> binds it.\<close>

definition name :: "string \<Rightarrow> val py" where
  "name x = (\<lambda>w k. case names k x of
       None \<Rightarrow> (Inl (NameError x), k)
     | Some v \<Rightarrow> (Inr v, k))"

definition assign :: "string \<Rightarrow> val \<Rightarrow> unit py" where
  "assign x v = (\<lambda>w k. (Inr (), k\<lparr>names := (names k)(x \<mapsto> v)\<rparr>))"

text \<open>
  The cell magic \<^verbatim>\<open>%%time\<close> runs the body of its cell in the notebook's namespace
  inside a \<^verbatim>\<open>try\<close> of its own: an exception of the body is caught by the magic, which
  shows the traceback and returns.  The statements of the body after the exception
  are not executed, what the body had bound stays bound, and the cell ends like
  one that did not raise, so the run goes on with the next cell.
\<close>

definition timed :: "'a py \<Rightarrow> unit py" where
  "timed body = (\<lambda>w k. case body w k of (r, k') \<Rightarrow> (Inr (), k'))"

text \<open>
  \<^verbatim>\<open>!cmd\<close> runs the command in a subshell.  Its exit status is not turned into an
  exception and no statement of the notebook reads it: the next statement runs
  whatever the status was.
\<close>

definition sh :: "string \<Rightarrow> unit py" where
  "sh cmd = (\<lambda>w k.
     (Inr (), k\<lparr>history := history k @ [Ran cmd (exit_status w (history k) cmd)]\<rparr>))"

text \<open>\<^verbatim>\<open>[str(x) for x in Path(d).glob(p)]\<close>\<close>

definition path_glob :: "string \<Rightarrow> string \<Rightarrow> string list py" where
  "path_glob d p = (\<lambda>w k. let r = glob w (history k) d p
     in (r, k\<lparr>history := history k @ [Globbed d p r]\<rparr>))"

text \<open>A library interaction: its result, or the exception it raised, unchanged.\<close>

definition lib :: "call \<Rightarrow> val py" where
  "lib c = (\<lambda>w k. let r = library w (history k) c
     in (r, k\<lparr>history := history k @ [Lib c r]\<rparr>))"

subsection \<open>The code cells, in notebook order\<close>

text \<open>
  A statement reads the variables it mentions in the order Python evaluates them,
  and an expression statement drops its value.
\<close>

text \<open>\<^verbatim>\<open>!wget -c https://cdn-datasets.huggingface.co/EsperBERTo/data/oscar.eo.txt\<close>\<close>

definition cell_wget :: "unit py" where
  "cell_wget =
     sh ''wget -c https://cdn-datasets.huggingface.co/EsperBERTo/data/oscar.eo.txt''"

text \<open>
  \<^verbatim>\<open>!pip uninstall -y tensorflow\<close>,
  \<^verbatim>\<open>!pip install git+https://github.com/huggingface/transformers\<close>,
  \<^verbatim>\<open>!pip list | grep -E 'transformers|tokenizers'\<close>
\<close>

definition cell_pip :: "unit py" where
  "cell_pip =
     py_then (sh ''pip uninstall -y tensorflow'')
    (py_then (sh ''pip install git+https://github.com/huggingface/transformers'')
             (sh (''pip list | grep -E '' @ [CHR 0x27] @ ''transformers|tokenizers''
                    @ [CHR 0x27])))"

text \<open>
  \<^verbatim>\<open>%%time\<close>,
  \<^verbatim>\<open>from pathlib import Path\<close>, \<^verbatim>\<open>from tokenizers import ByteLevelBPETokenizer\<close>,
  \<^verbatim>\<open>paths = [str(x) for x in Path(".").glob("**/*.txt")]\<close>,
  \<^verbatim>\<open>tokenizer = ByteLevelBPETokenizer()\<close>,
  \<^verbatim>\<open>tokenizer.train(files=paths, vocab_size=52_000, min_frequency=2, special_tokens=[...])\<close>
\<close>

definition cell_train_tokenizer :: "unit py" where
  "cell_train_tokenizer = timed
    (py_then (lib (Import ''pathlib'' [''Path'']))
    (py_then (lib (Import ''tokenizers'' [''ByteLevelBPETokenizer'']))
    (py_then (py_bind (path_glob ''.'' ''**/*.txt'')
                (\<lambda>paths. assign ''paths'' (PyList (map PyStr paths))))
    (py_then (py_bind (lib (Call ''ByteLevelBPETokenizer'' None [] [])) (assign ''tokenizer''))
    (py_bind (name ''tokenizer'') (\<lambda>tokenizer.
     py_bind (name ''paths'') (\<lambda>paths.
     py_then (lib (Call ''tokenizer.train'' (Some tokenizer) []
                [(''files'', paths),
                 (''vocab_size'', PyInt 52000),
                 (''min_frequency'', PyInt 2),
                 (''special_tokens'', PyList
                    [PyStr ''<s>'', PyStr ''<pad>'', PyStr ''</s>'', PyStr ''<unk>'',
                     PyStr ''<mask>''])]))
             (py_return ()))))))))"

text \<open>\<^verbatim>\<open>!mkdir EsperBERTo\<close>, \<^verbatim>\<open>tokenizer.save_model("EsperBERTo")\<close>\<close>

definition cell_save_tokenizer :: "unit py" where
  "cell_save_tokenizer =
     py_then (sh ''mkdir EsperBERTo'')
    (py_bind (name ''tokenizer'') (\<lambda>tokenizer.
     py_then (lib (Call ''tokenizer.save_model'' (Some tokenizer) [PyStr ''EsperBERTo''] []))
             (py_return ())))"

text \<open>
  \<^verbatim>\<open>from tokenizers.implementations import ByteLevelBPETokenizer\<close>,
  \<^verbatim>\<open>from tokenizers.processors import BertProcessing\<close>,
  \<^verbatim>\<open>tokenizer = ByteLevelBPETokenizer("./EsperBERTo/vocab.json", "./EsperBERTo/merges.txt")\<close>:
  from here on \<open>tokenizer\<close> is the reloaded one.
\<close>

definition cell_reload_tokenizer :: "unit py" where
  "cell_reload_tokenizer =
     py_then (lib (Import ''tokenizers.implementations'' [''ByteLevelBPETokenizer'']))
    (py_then (lib (Import ''tokenizers.processors'' [''BertProcessing'']))
    (py_bind (lib (Call ''ByteLevelBPETokenizer'' None
                [PyStr ''./EsperBERTo/vocab.json'', PyStr ''./EsperBERTo/merges.txt''] []))
             (assign ''tokenizer'')))"

text \<open>
  \<^verbatim>\<open>tokenizer._tokenizer.post_processor = BertProcessing(("</s>", tokenizer.token_to_id("</s>")), ("<s>", tokenizer.token_to_id("<s>")))\<close>
  (the right-hand side is evaluated first, left to right, then the target), and
  \<^verbatim>\<open>tokenizer.enable_truncation(max_length=512)\<close>.
\<close>

definition cell_post_processor :: "unit py" where
  "cell_post_processor =
     py_bind (name ''tokenizer'') (\<lambda>tokenizer.
     py_bind (lib (Call ''tokenizer.token_to_id'' (Some tokenizer) [PyStr ''</s>''] [])) (\<lambda>sep_id.
     py_bind (name ''tokenizer'') (\<lambda>tokenizer.
     py_bind (lib (Call ''tokenizer.token_to_id'' (Some tokenizer) [PyStr ''<s>''] [])) (\<lambda>cls_id.
     py_bind (lib (Call ''BertProcessing'' None
                [PyTuple [PyStr ''</s>'', sep_id], PyTuple [PyStr ''<s>'', cls_id]] []))
             (\<lambda>processor.
     py_bind (name ''tokenizer'') (\<lambda>tokenizer.
     py_bind (lib (Get_attr tokenizer ''_tokenizer'')) (\<lambda>inner.
     py_then (lib (Set_attr inner ''post_processor'' processor))
    (py_bind (name ''tokenizer'') (\<lambda>tokenizer.
     py_then (lib (Call ''tokenizer.enable_truncation'' (Some tokenizer) []
                [(''max_length'', PyInt 512)]))
             (py_return ()))))))))))"

text \<open>\<^verbatim>\<open>tokenizer.encode("Mi estas Julien.")\<close>\<close>

definition cell_encode :: "unit py" where
  "cell_encode =
     py_bind (name ''tokenizer'') (\<lambda>tokenizer.
     py_then (lib (Call ''tokenizer.encode'' (Some tokenizer) [PyStr ''Mi estas Julien.''] []))
             (py_return ()))"

text \<open>\<^verbatim>\<open>tokenizer.encode("Mi estas Julien.").tokens\<close>\<close>

definition cell_encode_tokens :: "unit py" where
  "cell_encode_tokens =
     py_bind (name ''tokenizer'') (\<lambda>tokenizer.
     py_bind (lib (Call ''tokenizer.encode'' (Some tokenizer) [PyStr ''Mi estas Julien.''] []))
             (\<lambda>encoding.
     py_then (lib (Get_attr encoding ''tokens''))
             (py_return ())))"

text \<open>\<^verbatim>\<open>import torch\<close>, \<^verbatim>\<open>torch.cuda.is_available()\<close>\<close>

definition cell_cuda :: "unit py" where
  "cell_cuda =
     py_then (lib (Import ''torch'' []))
    (py_then (lib (Call ''torch.cuda.is_available'' None [] []))
             (py_return ()))"

text \<open>
  \<^verbatim>\<open>from transformers import RobertaConfig\<close>,
  \<^verbatim>\<open>config = RobertaConfig(vocab_size=52_000, max_position_embeddings=514, num_attention_heads=12, num_hidden_layers=6, type_vocab_size=1)\<close>
\<close>

definition cell_config :: "unit py" where
  "cell_config =
     py_then (lib (Import ''transformers'' [''RobertaConfig'']))
    (py_bind (lib (Call ''RobertaConfig'' None []
                [(''vocab_size'', PyInt 52000),
                 (''max_position_embeddings'', PyInt 514),
                 (''num_attention_heads'', PyInt 12),
                 (''num_hidden_layers'', PyInt 6),
                 (''type_vocab_size'', PyInt 1)]))
             (assign ''config''))"

text \<open>
  \<^verbatim>\<open>from transformers import RobertaForMaskedLM\<close>,
  \<^verbatim>\<open>model = RobertaForMaskedLM(config=config)\<close>
\<close>

definition cell_model :: "unit py" where
  "cell_model =
     py_then (lib (Import ''transformers'' [''RobertaForMaskedLM'']))
    (py_bind (name ''config'') (\<lambda>config.
     py_bind (lib (Call ''RobertaForMaskedLM'' None [] [(''config'', config)]))
             (assign ''model'')))"

text \<open>\<^verbatim>\<open>model.num_parameters()\<close>\<close>

definition cell_num_parameters :: "unit py" where
  "cell_num_parameters =
     py_bind (name ''model'') (\<lambda>model.
     py_then (lib (Call ''model.num_parameters'' (Some model) [] []))
             (py_return ()))"

text \<open>
  \<^verbatim>\<open>%%time\<close>,
  \<^verbatim>\<open>from transformers import LineByLineTextDataset\<close>,
  \<^verbatim>\<open>dataset = LineByLineTextDataset(tokenizer=tokenizer, file_path="./oscar.eo.txt", block_size=128)\<close>
\<close>

definition cell_dataset :: "unit py" where
  "cell_dataset = timed
    (py_then (lib (Import ''transformers'' [''LineByLineTextDataset'']))
    (py_bind (name ''tokenizer'') (\<lambda>tokenizer.
     py_bind (lib (Call ''LineByLineTextDataset'' None []
                [(''tokenizer'', tokenizer),
                 (''file_path'', PyStr ''./oscar.eo.txt''),
                 (''block_size'', PyInt 128)]))
             (assign ''dataset''))))"

text \<open>
  \<^verbatim>\<open>from transformers import DataCollatorForLanguageModeling\<close>,
  \<^verbatim>\<open>data_collator = DataCollatorForLanguageModeling(tokenizer=tokenizer, mlm=True, mlm_probability=0.15)\<close>
\<close>

definition cell_data_collator :: "unit py" where
  "cell_data_collator =
     py_then (lib (Import ''transformers'' [''DataCollatorForLanguageModeling'']))
    (py_bind (name ''tokenizer'') (\<lambda>tokenizer.
     py_bind (lib (Call ''DataCollatorForLanguageModeling'' None []
                [(''tokenizer'', tokenizer),
                 (''mlm'', PyBool True),
                 (''mlm_probability'', PyFloat (15 / 100))]))
             (assign ''data_collator'')))"

text \<open>
  \<^verbatim>\<open>from transformers import Trainer, TrainingArguments\<close>,
  \<^verbatim>\<open>training_args = TrainingArguments(output_dir="./EsperBERTo", overwrite_output_dir=True, num_train_epochs=1, per_gpu_train_batch_size=64, save_steps=10_000, save_total_limit=2, prediction_loss_only=True)\<close>,
  \<^verbatim>\<open>trainer = Trainer(model=model, args=training_args, data_collator=data_collator, train_dataset=dataset)\<close>
\<close>

definition cell_trainer :: "unit py" where
  "cell_trainer =
     py_then (lib (Import ''transformers'' [''Trainer'', ''TrainingArguments'']))
    (py_then (py_bind (lib (Call ''TrainingArguments'' None []
                [(''output_dir'', PyStr ''./EsperBERTo''),
                 (''overwrite_output_dir'', PyBool True),
                 (''num_train_epochs'', PyInt 1),
                 (''per_gpu_train_batch_size'', PyInt 64),
                 (''save_steps'', PyInt 10000),
                 (''save_total_limit'', PyInt 2),
                 (''prediction_loss_only'', PyBool True)]))
             (assign ''training_args''))
    (py_bind (name ''model'') (\<lambda>model.
     py_bind (name ''training_args'') (\<lambda>training_args.
     py_bind (name ''data_collator'') (\<lambda>data_collator.
     py_bind (name ''dataset'') (\<lambda>dataset.
     py_bind (lib (Call ''Trainer'' None []
                [(''model'', model),
                 (''args'', training_args),
                 (''data_collator'', data_collator),
                 (''train_dataset'', dataset)]))
             (assign ''trainer'')))))))"

text \<open>\<^verbatim>\<open>%%time\<close>, \<^verbatim>\<open>trainer.train()\<close>\<close>

definition cell_train :: "unit py" where
  "cell_train = timed
    (py_bind (name ''trainer'') (\<lambda>trainer.
     py_then (lib (Call ''trainer.train'' (Some trainer) [] []))
             (py_return ())))"

text \<open>\<^verbatim>\<open>trainer.save_model("./EsperBERTo")\<close>\<close>

definition cell_save_model :: "unit py" where
  "cell_save_model =
     py_bind (name ''trainer'') (\<lambda>trainer.
     py_then (lib (Call ''trainer.save_model'' (Some trainer) [PyStr ''./EsperBERTo''] []))
             (py_return ()))"

text \<open>
  \<^verbatim>\<open>from transformers import pipeline\<close>,
  \<^verbatim>\<open>fill_mask = pipeline("fill-mask", model="./EsperBERTo", tokenizer="./EsperBERTo")\<close>
\<close>

definition cell_pipeline :: "unit py" where
  "cell_pipeline =
     py_then (lib (Import ''transformers'' [''pipeline'']))
    (py_bind (lib (Call ''pipeline'' None [PyStr ''fill-mask'']
                [(''model'', PyStr ''./EsperBERTo''),
                 (''tokenizer'', PyStr ''./EsperBERTo'')]))
             (assign ''fill_mask''))"

text \<open>\<^verbatim>\<open>fill_mask("La suno <mask>.")\<close>\<close>

definition cell_fill_mask_suno :: "unit py" where
  "cell_fill_mask_suno =
     py_bind (name ''fill_mask'') (\<lambda>fill_mask.
     py_then (lib (Call ''fill_mask'' (Some fill_mask) [PyStr ''La suno <mask>.''] []))
             (py_return ()))"

text \<open>\<^verbatim>\<open>fill_mask("Jen la komenco de bela <mask>.")\<close>\<close>

definition cell_fill_mask_komenco :: "unit py" where
  "cell_fill_mask_komenco =
     py_bind (name ''fill_mask'') (\<lambda>fill_mask.
     py_then (lib (Call ''fill_mask'' (Some fill_mask)
                [PyStr ''Jen la komenco de bela <mask>.''] []))
             (py_return ()))"

text \<open>The notebook: the code cells from top to bottom (the last cell is empty).\<close>

definition notebook :: "unit py" where
  "notebook =
     py_then cell_wget
    (py_then cell_pip
    (py_then cell_train_tokenizer
    (py_then cell_save_tokenizer
    (py_then cell_reload_tokenizer
    (py_then cell_post_processor
    (py_then cell_encode
    (py_then cell_encode_tokens
    (py_then cell_cuda
    (py_then cell_config
    (py_then cell_model
    (py_then cell_num_parameters
    (py_then cell_dataset
    (py_then cell_data_collator
    (py_then cell_trainer
    (py_then cell_train
    (py_then cell_save_model
    (py_then cell_pipeline
    (py_then cell_fill_mask_suno
    (py_then cell_fill_mask_komenco
             (py_return ()))))))))))))))))))))"

text \<open>A run starts in a fresh kernel: no variable is bound, nothing has happened.\<close>

definition fresh :: kernel where
  "fresh = \<lparr>names = (\<lambda>x. None), history = []\<rparr>"

definition trace :: "world \<Rightarrow> event list" where
  "trace w = history (snd (notebook w fresh))"

definition outcome :: "world \<Rightarrow> exn + unit" where
  "outcome w = fst (notebook w fresh)"

section \<open>Reading a history\<close>

text \<open>
  The request part of an event, without the world's answer.  Two runs in different
  worlds can be compared by their actions.
\<close>

datatype action =
    Shell string
  | Listing string string
  | Library call

fun action_of :: "event \<Rightarrow> action" where
  "action_of (Ran cmd st) = Shell cmd"
| "action_of (Globbed d p r) = Listing d p"
| "action_of (Lib c r) = Library c"

definition exn_of :: "exn + 'a \<Rightarrow> exn option" where
  "exn_of r = (case r of Inl e \<Rightarrow> Some e | Inr x \<Rightarrow> None)"





text \<open>The directory listings of a history, in order: directory and pattern.\<close>

fun listing :: "action \<Rightarrow> (string \<times> string) option" where
  "listing (Listing d p) = Some (d, p)"
| "listing a = None"

definition listings :: "event list \<Rightarrow> (string \<times> string) list" where
  "listings h = List.map_filter listing (map action_of h)"

text \<open>
  The positional and keyword arguments of the calls of a history whose callee is
  spelled \<open>f\<close>, in order.
\<close>

fun call_to :: "string \<Rightarrow> action \<Rightarrow> (val list \<times> (string \<times> val) list) option" where
  "call_to f (Library (Call g self args kw)) = (if g = f then Some (args, kw) else None)"
| "call_to f a = None"

definition calls_to :: "string \<Rightarrow> event list \<Rightarrow> (val list \<times> (string \<times> val) list) list" where
  "calls_to f h = List.map_filter (call_to f) (map action_of h)"

text \<open>The objects the calls to \<open>f\<close> were made on.\<close>

fun receiver_of :: "string \<Rightarrow> action \<Rightarrow> val option option" where
  "receiver_of f (Library (Call g self args kw)) = (if g = f then Some self else None)"
| "receiver_of f a = None"

definition receivers :: "string \<Rightarrow> event list \<Rightarrow> val option list" where
  "receivers f h = List.map_filter (receiver_of f) (map action_of h)"

text \<open>The values the calls to \<open>f\<close> returned.\<close>

fun result_of :: "string \<Rightarrow> event \<Rightarrow> val option" where
  "result_of f (Lib (Call g self args kw) (Inr v)) = (if g = f then Some v else None)"
| "result_of f e = None"

definition returned :: "string \<Rightarrow> event list \<Rightarrow> val list" where
  "returned f h = List.map_filter (result_of f) h"

text \<open>The paths a listing of directory \<open>d\<close> with pattern \<open>p\<close> returned.\<close>

fun listing_of :: "string \<Rightarrow> string \<Rightarrow> event \<Rightarrow> string list option" where
  "listing_of d p (Globbed d' p' (Inr paths)) =
     (if d' = d \<and> p' = p then Some paths else None)"
| "listing_of d p e = None"

text \<open>
  The five steps the specification names, and the interactions that belong to each:
  the command of the first cell, which downloads the corpus \<^verbatim>\<open>oscar.eo.txt\<close>;
  \<^verbatim>\<open>tokenizer.train\<close>; \<^verbatim>\<open>RobertaConfig\<close> and
  \<^verbatim>\<open>RobertaForMaskedLM\<close>; \<^verbatim>\<open>Trainer\<close> and \<^verbatim>\<open>trainer.train\<close>; \<^verbatim>\<open>pipeline\<close> and
  \<^verbatim>\<open>fill_mask\<close>.
\<close>

datatype step = Download | Tokenizer_training | Model_construction | Training | Inference



text \<open>How often token \<open>t\<close> occurs in a sentence.\<close>

fun count_token :: "string \<Rightarrow> string \<Rightarrow> nat" where
  "count_token t [] = 0"
| "count_token t (c # cs) = (if prefix t (c # cs) then 1 else 0) + count_token t cs"

subsection \<open>Worlds\<close>

text \<open>
  A world where everything works: every command exits with status 0, the listing
  finds the corpus and one more text file, every library interaction returns a fresh
  object.
\<close>

definition ok_world :: world where
  "ok_world = \<lparr>exit_status = (\<lambda>h cmd. 0),
     glob = (\<lambda>h d p. Inr [''oscar.eo.txt'', ''notes/todo.txt'']),
     library = (\<lambda>h c. Inr (PyObj (length h)))\<rparr>"



text \<open>A world without the tokenizers library: \<^verbatim>\<open>from tokenizers import ...\<close> raises.\<close>

definition no_tokenizers_world :: world where
  "no_tokenizers_world = \<lparr>exit_status = (\<lambda>h cmd. 0),
     glob = (\<lambda>h d p. Inr [''oscar.eo.txt'', ''notes/todo.txt'']),
     library = (\<lambda>h c. if c = Import ''tokenizers'' [''ByteLevelBPETokenizer'']
                       then Inl (Exception ''ModuleNotFoundError'')
                       else Inr (PyObj (length h)))\<rparr>"

section \<open>Reasoning about straight-line code\<close>

text \<open>
  The notebook has no loop and few branches, so a property of all its runs is checked
  by following the statements once, whatever the world answers. A property is given as
  a monitor: a state \<open>s\<close>, a function \<open>\<delta>\<close> that updates the state at each event, and a test
  \<open>fin\<close> of the exception the code ends with (if any) and the state reached.
  \<open>tracks \<delta> fin m ns s\<close> says that the code \<open>m\<close>, started with the names \<open>ns\<close> bound and in
  any world and after any history, only appends events to the history, and that the
  monitor started in \<open>s\<close> and fed these events passes the test.
\<close>

definition tracks ::
  "('s \<Rightarrow> event \<Rightarrow> 's) \<Rightarrow> (exn option \<Rightarrow> 's \<Rightarrow> bool) \<Rightarrow> unit py \<Rightarrow>
     (string \<Rightarrow> val option) \<Rightarrow> 's \<Rightarrow> bool" where
  "tracks \<delta> fin m ns s \<longleftrightarrow> (\<forall>w h. \<exists>new ns'.
     snd (m w \<lparr>names = ns, history = h\<rparr>) = \<lparr>names = ns', history = h @ new\<rparr> \<and>
     fin (exn_of (fst (m w \<lparr>names = ns, history = h\<rparr>))) (foldl \<delta> s new))"

text \<open>
  A statement that is one interaction: it leaves the names alone and appends one
  event, which \<open>E\<close> relates to the result.
\<close>

definition interaction :: "'a py \<Rightarrow> ((exn + 'a) \<Rightarrow> event \<Rightarrow> bool) \<Rightarrow> bool" where
  "interaction m E \<longleftrightarrow> (\<forall>w ns h. \<exists>r ev.
     m w \<lparr>names = ns, history = h\<rparr> = (r, \<lparr>names = ns, history = h @ [ev]\<rparr>) \<and> E r ev)"

text \<open>Every action performed satisfies \<open>P\<close>.\<close>

definition emit_step :: "(action \<Rightarrow> bool) \<Rightarrow> bool \<Rightarrow> event \<Rightarrow> bool" where
  "emit_step P b e \<longleftrightarrow> b \<and> P (action_of e)"

definition emits :: "(action \<Rightarrow> bool) \<Rightarrow> unit py \<Rightarrow> bool" where
  "emits P m \<longleftrightarrow> tracks (emit_step P) (\<lambda>r b. b) m (\<lambda>x. None) True"

text \<open>
  The actions that \<open>lab\<close> selects are an initial part of the list \<open>L\<close>, and all of it
  when the code returns. The state of the monitor is what remains of \<open>L\<close>, or \<open>None\<close>
  once a selected action was not the next of the list.
\<close>

fun expect :: "(action \<Rightarrow> 'l option) \<Rightarrow> 'l list option \<Rightarrow> event \<Rightarrow> 'l list option" where
  "expect lab None e = None"
| "expect lab (Some L) e =
     (case lab (action_of e) of
        None \<Rightarrow> Some L
      | Some l \<Rightarrow> (case L of [] \<Rightarrow> None | l' # L' \<Rightarrow> if l = l' then Some L' else None))"

definition scripted :: "(action \<Rightarrow> 'l option) \<Rightarrow> 'l list \<Rightarrow> unit py \<Rightarrow> bool" where
  "scripted lab L m \<longleftrightarrow>
     tracks (expect lab) (\<lambda>r s. s \<noteq> None \<and> (r = None \<longrightarrow> s = Some [])) m (\<lambda>x. None) (Some L)"

text \<open>
  Every action that uses a value (\<open>U\<close>) comes after an event that supplied it: an
  earlier event \<open>g\<close> with \<open>src g = Some v\<close>, where the action carries \<open>v\<close> (\<open>Q v\<close>). The
  state of the monitor is the list of the values supplied so far, or \<open>None\<close> once an
  action used a value that no earlier event had supplied.
\<close>

fun provide :: "(event \<Rightarrow> 'v option) \<Rightarrow> ('v \<Rightarrow> action \<Rightarrow> bool) \<Rightarrow> (action \<Rightarrow> bool) \<Rightarrow>
    'v list option \<Rightarrow> event \<Rightarrow> 'v list option" where
  "provide src Q U None e = None"
| "provide src Q U (Some vs) e =
     (if U (action_of e) \<and> \<not> (\<exists>v\<in>set vs. Q v (action_of e)) then None
      else Some (case src e of None \<Rightarrow> vs | Some v \<Rightarrow> v # vs))"

definition supplied ::
  "(event \<Rightarrow> 'v option) \<Rightarrow> ('v \<Rightarrow> action \<Rightarrow> bool) \<Rightarrow> (action \<Rightarrow> bool) \<Rightarrow> unit py \<Rightarrow> bool" where
  "supplied src Q U m \<longleftrightarrow>
     tracks (provide src Q U) (\<lambda>r s. s \<noteq> None) m (\<lambda>x. None) (Some [])"

text \<open>A call to \<open>f\<close> passes \<open>v\<close> as keyword argument \<open>k\<close>; a call to \<open>f\<close> is made on \<open>v\<close>.\<close>

definition passes :: "string \<Rightarrow> string \<Rightarrow> val \<Rightarrow> action \<Rightarrow> bool" where
  "passes f k v a \<longleftrightarrow> (\<forall>args kw. call_to f a = Some (args, kw) \<longrightarrow> map_of kw k = Some v)"

definition called_on :: "string \<Rightarrow> val \<Rightarrow> action \<Rightarrow> bool" where
  "called_on f v a \<longleftrightarrow> (\<forall>self. receiver_of f a = Some self \<longrightarrow> self = Some v)"





subsection \<open>Statements in sequence\<close>

text \<open>
  Sequencing is associative, so a cell followed by the rest of the notebook is a
  sequence of statements, each followed by what remains.
\<close>

lemma py_bind_assoc: "py_bind (py_bind m f) g = py_bind m (\<lambda>x. py_bind (f x) g)"
  by (auto simp: py_bind_def fun_eq_iff split: prod.splits sum.splits)

lemma py_return_left: "py_bind (py_return x) f = f x"
  by (simp add: py_bind_def py_return_def)

lemmas cells = notebook_def py_then_def

subsection \<open>One statement and the rest\<close>

text \<open>
  One rule for each kind of statement, outside and inside a \<^verbatim>\<open>%%time\<close> cell: the
  monitor takes the event of the statement, and the rest of the code is followed from
  there. An exception ends the code outside a \<^verbatim>\<open>%%time\<close> cell, and inside one it goes
  on with the code after the cell.
\<close>

lemma timed_bind:
  "py_bind (timed (py_bind m f)) g w k =
     (case m w k of (Inl e, k') \<Rightarrow> g () w k' | (Inr x, k') \<Rightarrow> py_bind (timed (f x)) g w k')"
  by (simp add: py_bind_def timed_def split: prod.splits sum.splits)

lemma interaction_sh: "interaction (sh cmd) (\<lambda>r ev. r = Inr () \<and> (\<exists>st. ev = Ran cmd st))"
  by (simp add: interaction_def sh_def)

lemma interaction_glob: "interaction (path_glob d p) (\<lambda>r ev. ev = Globbed d p r)"
  by (simp add: interaction_def path_glob_def Let_def)

lemma interaction_lib: "interaction (lib c) (\<lambda>r ev. ev = Lib c r)"
  by (simp add: interaction_def lib_def Let_def)

lemma tracks_append:
  assumes "tracks \<delta> fin m ns (\<delta> s ev)"
  shows "\<exists>new ns'. snd (m w \<lparr>names = ns, history = h @ [ev]\<rparr>) = \<lparr>names = ns', history = h @ new\<rparr> \<and>
     fin (exn_of (fst (m w \<lparr>names = ns, history = h @ [ev]\<rparr>))) (foldl \<delta> s new)"
proof -
  from assms obtain new ns' where
    "snd (m w \<lparr>names = ns, history = h @ [ev]\<rparr>) = \<lparr>names = ns', history = (h @ [ev]) @ new\<rparr>"
    "fin (exn_of (fst (m w \<lparr>names = ns, history = h @ [ev]\<rparr>))) (foldl \<delta> (\<delta> s ev) new)"
    unfolding tracks_def by blast
  then show ?thesis
    by (intro exI[of _ "ev # new"] exI[of _ ns']) simp
qed

lemma tracks_interaction:
  assumes m: "interaction m E"
    and fail: "\<And>e ev. E (Inl e) ev \<Longrightarrow> fin (Some e) (\<delta> s ev)"
    and cont: "\<And>x ev. E (Inr x) ev \<Longrightarrow> tracks \<delta> fin (f x) ns (\<delta> s ev)"
  shows "tracks \<delta> fin (py_bind m f) ns s"
  unfolding tracks_def
proof (intro allI)
  fix w h
  from m obtain r ev where run: "m w \<lparr>names = ns, history = h\<rparr> = (r, \<lparr>names = ns, history = h @ [ev]\<rparr>)"
    and E: "E r ev"
    unfolding interaction_def by blast
  show "\<exists>new ns'. snd (py_bind m f w \<lparr>names = ns, history = h\<rparr>) = \<lparr>names = ns', history = h @ new\<rparr> \<and>
     fin (exn_of (fst (py_bind m f w \<lparr>names = ns, history = h\<rparr>))) (foldl \<delta> s new)"
  proof (cases r)
    case (Inl e)
    with run have "py_bind m f w \<lparr>names = ns, history = h\<rparr> = (Inl e, \<lparr>names = ns, history = h @ [ev]\<rparr>)"
      by (simp add: py_bind_def)
    moreover from fail E Inl have "fin (Some e) (\<delta> s ev)" by blast
    ultimately show ?thesis
      by (intro exI[of _ "[ev]"] exI[of _ ns]) (simp add: exn_of_def)
  next
    case (Inr x)
    with run have "py_bind m f w \<lparr>names = ns, history = h\<rparr> = f x w \<lparr>names = ns, history = h @ [ev]\<rparr>"
      by (simp add: py_bind_def)
    moreover from cont E Inr have "tracks \<delta> fin (f x) ns (\<delta> s ev)" by blast
    ultimately show ?thesis using tracks_append[of \<delta> fin "f x" ns s ev w h] by simp
  qed
qed

lemma tracks_timed_interaction:
  assumes m: "interaction m E"
    and fail: "\<And>e ev. E (Inl e) ev \<Longrightarrow> tracks \<delta> fin (g ()) ns (\<delta> s ev)"
    and cont: "\<And>x ev. E (Inr x) ev \<Longrightarrow> tracks \<delta> fin (py_bind (timed (f x)) g) ns (\<delta> s ev)"
  shows "tracks \<delta> fin (py_bind (timed (py_bind m f)) g) ns s"
  unfolding tracks_def
proof (intro allI)
  fix w h
  from m obtain r ev where run: "m w \<lparr>names = ns, history = h\<rparr> = (r, \<lparr>names = ns, history = h @ [ev]\<rparr>)"
    and E: "E r ev"
    unfolding interaction_def by blast
  let ?p = "py_bind (timed (py_bind m f)) g"
  show "\<exists>new ns'. snd (?p w \<lparr>names = ns, history = h\<rparr>) = \<lparr>names = ns', history = h @ new\<rparr> \<and>
     fin (exn_of (fst (?p w \<lparr>names = ns, history = h\<rparr>))) (foldl \<delta> s new)"
  proof (cases r)
    case (Inl e)
    with run have "?p w \<lparr>names = ns, history = h\<rparr> = g () w \<lparr>names = ns, history = h @ [ev]\<rparr>"
      by (simp add: timed_bind)
    moreover from fail E Inl have "tracks \<delta> fin (g ()) ns (\<delta> s ev)" by blast
    ultimately show ?thesis using tracks_append[of \<delta> fin "g ()" ns s ev w h] by simp
  next
    case (Inr x)
    with run have "?p w \<lparr>names = ns, history = h\<rparr> =
        py_bind (timed (f x)) g w \<lparr>names = ns, history = h @ [ev]\<rparr>"
      by (simp add: timed_bind)
    moreover from cont E Inr have "tracks \<delta> fin (py_bind (timed (f x)) g) ns (\<delta> s ev)" by blast
    ultimately show ?thesis
      using tracks_append[of \<delta> fin "py_bind (timed (f x)) g" ns s ev w h] by simp
  qed
qed

lemma tracks_sh:
  assumes "\<And>st. tracks \<delta> fin (f ()) ns (\<delta> s (Ran cmd st))"
  shows "tracks \<delta> fin (py_bind (sh cmd) f) ns s"
  by (rule tracks_interaction[OF interaction_sh]) (use assms in auto)

lemma tracks_glob:
  assumes "\<And>e. fin (Some e) (\<delta> s (Globbed d p (Inl e)))"
    and "\<And>x. tracks \<delta> fin (f x) ns (\<delta> s (Globbed d p (Inr x)))"
  shows "tracks \<delta> fin (py_bind (path_glob d p) f) ns s"
  by (rule tracks_interaction[OF interaction_glob]) (use assms in auto)

lemma tracks_lib:
  assumes "\<And>e. fin (Some e) (\<delta> s (Lib c (Inl e)))"
    and "\<And>x. tracks \<delta> fin (f x) ns (\<delta> s (Lib c (Inr x)))"
  shows "tracks \<delta> fin (py_bind (lib c) f) ns s"
  by (rule tracks_interaction[OF interaction_lib]) (use assms in auto)

lemma tracks_timed_glob:
  assumes "\<And>e. tracks \<delta> fin (g ()) ns (\<delta> s (Globbed d p (Inl e)))"
    and "\<And>x. tracks \<delta> fin (py_bind (timed (f x)) g) ns (\<delta> s (Globbed d p (Inr x)))"
  shows "tracks \<delta> fin (py_bind (timed (py_bind (path_glob d p) f)) g) ns s"
  by (rule tracks_timed_interaction[OF interaction_glob]) (use assms in auto)

lemma tracks_timed_lib:
  assumes "\<And>e. tracks \<delta> fin (g ()) ns (\<delta> s (Lib c (Inl e)))"
    and "\<And>x. tracks \<delta> fin (py_bind (timed (f x)) g) ns (\<delta> s (Lib c (Inr x)))"
  shows "tracks \<delta> fin (py_bind (timed (py_bind (lib c) f)) g) ns s"
  by (rule tracks_timed_interaction[OF interaction_lib]) (use assms in auto)

lemma tracks_return:
  assumes "fin None s"
  shows "tracks \<delta> fin (py_return x) ns s"
  using assms by (simp add: tracks_def py_return_def exn_of_def)

lemma tracks_name:
  assumes "case ns x of None \<Rightarrow> fin (Some (NameError x)) s
           | Some v \<Rightarrow> tracks \<delta> fin (f v) ns s"
  shows "tracks \<delta> fin (py_bind (name x) f) ns s"
proof (cases "ns x")
  case None
  with assms have "fin (Some (NameError x)) s" by simp
  with None show ?thesis by (simp add: tracks_def py_bind_def name_def exn_of_def)
next
  case (Some v)
  with assms have "tracks \<delta> fin (f v) ns s" by simp
  with Some show ?thesis by (simp add: tracks_def py_bind_def name_def)
qed

lemma tracks_assign:
  assumes "tracks \<delta> fin (f ()) (ns(x \<mapsto> v)) s"
  shows "tracks \<delta> fin (py_bind (assign x v) f) ns s"
  using assms by (simp add: tracks_def py_bind_def assign_def)

lemma tracks_timed_name:
  assumes "case ns x of None \<Rightarrow> tracks \<delta> fin (g ()) ns s
           | Some v \<Rightarrow> tracks \<delta> fin (py_bind (timed (f v)) g) ns s"
  shows "tracks \<delta> fin (py_bind (timed (py_bind (name x) f)) g) ns s"
proof (cases "ns x")
  case None
  with assms have "tracks \<delta> fin (g ()) ns s" by simp
  with None show ?thesis by (simp add: tracks_def timed_bind name_def)
next
  case (Some v)
  with assms have "tracks \<delta> fin (py_bind (timed (f v)) g) ns s" by simp
  with Some show ?thesis by (simp add: tracks_def timed_bind name_def)
qed

lemma tracks_timed_assign:
  assumes "tracks \<delta> fin (py_bind (timed (f ())) g) (ns(x \<mapsto> v)) s"
  shows "tracks \<delta> fin (py_bind (timed (py_bind (assign x v) f)) g) ns s"
  using assms by (simp add: tracks_def timed_bind assign_def)

lemma tracks_timed_assign_last:
  assumes "tracks \<delta> fin (g ()) (ns(x \<mapsto> v)) s"
  shows "tracks \<delta> fin (py_bind (timed (assign x v)) g) ns s"
  using assms by (simp add: tracks_def py_bind_def timed_def assign_def)

lemma tracks_timed_return:
  assumes "tracks \<delta> fin (g ()) ns s"
  shows "tracks \<delta> fin (py_bind (timed (py_return x)) g) ns s"
  using assms by (simp add: tracks_def py_bind_def timed_def py_return_def)

text \<open>
  The cells are opened one at a time: the code of a cell replaces its name when the
  cell is reached.
\<close>

lemma tracks_open:
  "c = m \<Longrightarrow> tracks \<delta> fin (py_bind m f) ns s \<Longrightarrow> tracks \<delta> fin (py_bind c f) ns s"
  by simp

lemmas tracks_cells =
  tracks_open[OF cell_wget_def, unfolded py_then_def py_bind_assoc py_return_left]
  tracks_open[OF cell_pip_def, unfolded py_then_def py_bind_assoc py_return_left]
  tracks_open[OF cell_train_tokenizer_def, unfolded py_then_def py_bind_assoc py_return_left]
  tracks_open[OF cell_save_tokenizer_def, unfolded py_then_def py_bind_assoc py_return_left]
  tracks_open[OF cell_reload_tokenizer_def, unfolded py_then_def py_bind_assoc py_return_left]
  tracks_open[OF cell_post_processor_def, unfolded py_then_def py_bind_assoc py_return_left]
  tracks_open[OF cell_encode_def, unfolded py_then_def py_bind_assoc py_return_left]
  tracks_open[OF cell_encode_tokens_def, unfolded py_then_def py_bind_assoc py_return_left]
  tracks_open[OF cell_cuda_def, unfolded py_then_def py_bind_assoc py_return_left]
  tracks_open[OF cell_config_def, unfolded py_then_def py_bind_assoc py_return_left]
  tracks_open[OF cell_model_def, unfolded py_then_def py_bind_assoc py_return_left]
  tracks_open[OF cell_num_parameters_def, unfolded py_then_def py_bind_assoc py_return_left]
  tracks_open[OF cell_dataset_def, unfolded py_then_def py_bind_assoc py_return_left]
  tracks_open[OF cell_data_collator_def, unfolded py_then_def py_bind_assoc py_return_left]
  tracks_open[OF cell_trainer_def, unfolded py_then_def py_bind_assoc py_return_left]
  tracks_open[OF cell_train_def, unfolded py_then_def py_bind_assoc py_return_left]
  tracks_open[OF cell_save_model_def, unfolded py_then_def py_bind_assoc py_return_left]
  tracks_open[OF cell_pipeline_def, unfolded py_then_def py_bind_assoc py_return_left]
  tracks_open[OF cell_fill_mask_suno_def, unfolded py_then_def py_bind_assoc py_return_left]
  tracks_open[OF cell_fill_mask_komenco_def, unfolded py_then_def py_bind_assoc py_return_left]

lemmas tracks_rules = tracks_cells tracks_sh tracks_glob tracks_lib tracks_name tracks_assign
  tracks_return tracks_timed_glob tracks_timed_lib tracks_timed_name tracks_timed_assign
  tracks_timed_assign_last tracks_timed_return

text \<open>Only the state of the monitor is simplified, never the code that remains.\<close>

lemma tracks_cong: "s = s' \<Longrightarrow> tracks \<delta> fin m ns s = tracks \<delta> fin m ns s'"
  by simp

subsection \<open>From the notebook to its runs\<close>

text \<open>
  A run in a given world is computed statement by statement, with one equation for each
  kind of statement.
\<close>

lemma run_sh:
  "py_bind (sh cmd) f w \<lparr>names = ns, history = h\<rparr> =
     f () w \<lparr>names = ns, history = h @ [Ran cmd (exit_status w h cmd)]\<rparr>"
  by (simp add: py_bind_def sh_def)

lemma run_glob:
  "py_bind (path_glob d p) f w \<lparr>names = ns, history = h\<rparr> =
     (case glob w h d p of
        Inl e \<Rightarrow> (Inl e, \<lparr>names = ns, history = h @ [Globbed d p (Inl e)]\<rparr>)
      | Inr x \<Rightarrow> f x w \<lparr>names = ns, history = h @ [Globbed d p (Inr x)]\<rparr>)"
  by (simp add: py_bind_def path_glob_def Let_def split: sum.splits)

lemma run_lib:
  "py_bind (lib c) f w \<lparr>names = ns, history = h\<rparr> =
     (case library w h c of
        Inl e \<Rightarrow> (Inl e, \<lparr>names = ns, history = h @ [Lib c (Inl e)]\<rparr>)
      | Inr x \<Rightarrow> f x w \<lparr>names = ns, history = h @ [Lib c (Inr x)]\<rparr>)"
  by (simp add: py_bind_def lib_def Let_def split: sum.splits)

lemma run_name:
  "py_bind (name x) f w \<lparr>names = ns, history = h\<rparr> =
     (case ns x of
        None \<Rightarrow> (Inl (NameError x), \<lparr>names = ns, history = h\<rparr>)
      | Some v \<Rightarrow> f v w \<lparr>names = ns, history = h\<rparr>)"
  by (simp add: py_bind_def name_def split: option.splits)

lemma run_assign:
  "py_bind (assign x v) f w \<lparr>names = ns, history = h\<rparr> =
     f () w \<lparr>names = ns(x \<mapsto> v), history = h\<rparr>"
  by (simp add: py_bind_def assign_def)

lemma run_timed_glob:
  "py_bind (timed (py_bind (path_glob d p) f)) g w \<lparr>names = ns, history = h\<rparr> =
     (case glob w h d p of
        Inl e \<Rightarrow> g () w \<lparr>names = ns, history = h @ [Globbed d p (Inl e)]\<rparr>
      | Inr x \<Rightarrow> py_bind (timed (f x)) g w \<lparr>names = ns, history = h @ [Globbed d p (Inr x)]\<rparr>)"
  by (simp add: timed_bind path_glob_def Let_def split: sum.splits)

lemma run_timed_lib:
  "py_bind (timed (py_bind (lib c) f)) g w \<lparr>names = ns, history = h\<rparr> =
     (case library w h c of
        Inl e \<Rightarrow> g () w \<lparr>names = ns, history = h @ [Lib c (Inl e)]\<rparr>
      | Inr x \<Rightarrow> py_bind (timed (f x)) g w \<lparr>names = ns, history = h @ [Lib c (Inr x)]\<rparr>)"
  by (simp add: timed_bind lib_def Let_def split: sum.splits)

lemma run_timed_name:
  "py_bind (timed (py_bind (name x) f)) g w \<lparr>names = ns, history = h\<rparr> =
     (case ns x of
        None \<Rightarrow> g () w \<lparr>names = ns, history = h\<rparr>
      | Some v \<Rightarrow> py_bind (timed (f v)) g w \<lparr>names = ns, history = h\<rparr>)"
  by (simp add: timed_bind name_def split: option.splits)

lemma run_timed_assign:
  "py_bind (timed (py_bind (assign x v) f)) g w \<lparr>names = ns, history = h\<rparr> =
     py_bind (timed (f ())) g w \<lparr>names = ns(x \<mapsto> v), history = h\<rparr>"
  by (simp add: timed_bind assign_def)

lemma run_timed_assign_last:
  "py_bind (timed (assign x v)) g w \<lparr>names = ns, history = h\<rparr> =
     g () w \<lparr>names = ns(x \<mapsto> v), history = h\<rparr>"
  by (simp add: py_bind_def timed_def assign_def)

lemma run_timed_return:
  "py_bind (timed (py_return x)) g w k = g () w k"
  by (simp add: py_bind_def timed_def py_return_def)

lemma run_return: "py_return x w k = (Inr x, k)"
  by (simp add: py_return_def)

lemma run_open: "c = m \<Longrightarrow> py_bind c f w \<kappa> = py_bind m f w \<kappa>"
  by simp

lemmas run_cells =
  run_open[OF cell_wget_def, unfolded py_then_def py_bind_assoc py_return_left]
  run_open[OF cell_pip_def, unfolded py_then_def py_bind_assoc py_return_left]
  run_open[OF cell_train_tokenizer_def, unfolded py_then_def py_bind_assoc py_return_left]
  run_open[OF cell_save_tokenizer_def, unfolded py_then_def py_bind_assoc py_return_left]
  run_open[OF cell_reload_tokenizer_def, unfolded py_then_def py_bind_assoc py_return_left]
  run_open[OF cell_post_processor_def, unfolded py_then_def py_bind_assoc py_return_left]
  run_open[OF cell_encode_def, unfolded py_then_def py_bind_assoc py_return_left]
  run_open[OF cell_encode_tokens_def, unfolded py_then_def py_bind_assoc py_return_left]
  run_open[OF cell_cuda_def, unfolded py_then_def py_bind_assoc py_return_left]
  run_open[OF cell_config_def, unfolded py_then_def py_bind_assoc py_return_left]
  run_open[OF cell_model_def, unfolded py_then_def py_bind_assoc py_return_left]
  run_open[OF cell_num_parameters_def, unfolded py_then_def py_bind_assoc py_return_left]
  run_open[OF cell_dataset_def, unfolded py_then_def py_bind_assoc py_return_left]
  run_open[OF cell_data_collator_def, unfolded py_then_def py_bind_assoc py_return_left]
  run_open[OF cell_trainer_def, unfolded py_then_def py_bind_assoc py_return_left]
  run_open[OF cell_train_def, unfolded py_then_def py_bind_assoc py_return_left]
  run_open[OF cell_save_model_def, unfolded py_then_def py_bind_assoc py_return_left]
  run_open[OF cell_pipeline_def, unfolded py_then_def py_bind_assoc py_return_left]
  run_open[OF cell_fill_mask_suno_def, unfolded py_then_def py_bind_assoc py_return_left]
  run_open[OF cell_fill_mask_komenco_def, unfolded py_then_def py_bind_assoc py_return_left]

lemmas run = trace_def outcome_def fresh_def notebook_def py_then_def run_cells
  run_sh run_glob run_lib run_name run_assign run_timed_glob run_timed_lib run_timed_name
  run_timed_assign run_timed_assign_last run_timed_return run_return

lemma tracks_trace:
  assumes "tracks \<delta> fin notebook (\<lambda>x. None) s"
  shows "fin (exn_of (outcome w)) (foldl \<delta> s (trace w))"
proof -
  from assms obtain new ns' where
    "snd (notebook w fresh) = \<lparr>names = ns', history = [] @ new\<rparr>"
    "fin (exn_of (fst (notebook w fresh))) (foldl \<delta> s new)"
    unfolding tracks_def fresh_def by blast
  then show ?thesis by (simp add: trace_def outcome_def)
qed

lemma foldl_emit_step:
  "foldl (emit_step P) b xs \<longleftrightarrow> b \<and> (\<forall>e\<in>set xs. P (action_of e))"
  by (induction xs arbitrary: b) (auto simp: emit_step_def)

lemma emits_trace: "emits P notebook \<Longrightarrow> e \<in> set (trace w) \<Longrightarrow> P (action_of e)"
  using tracks_trace[of "emit_step P" "\<lambda>r b. b" True w]
  by (simp add: emits_def foldl_emit_step)

lemma foldl_expect_None: "foldl (expect lab) None xs = None"
  by (induction xs) simp_all

lemma foldl_expect:
  "foldl (expect lab) (Some L) xs = Some R \<Longrightarrow>
     List.map_filter lab (map action_of xs) @ R = L"
proof (induction xs arbitrary: L)
  case Nil
  then show ?case by simp
next
  case (Cons e xs)
  show ?case
  proof (cases "lab (action_of e)")
    case None
    with Cons show ?thesis by simp
  next
    case (Some l)
    show ?thesis
    proof (cases L)
      case Nil
      with Some Cons.prems show ?thesis by (simp add: foldl_expect_None)
    next
      case (Cons l' L')
      show ?thesis
      proof (cases "l = l'")
        case True
        with Some Cons Cons.prems Cons.IH[of L'] show ?thesis by simp
      next
        case False
        with Some Cons Cons.prems show ?thesis by (simp add: foldl_expect_None)
      qed
    qed
  qed
qed

lemma scripted_trace:
  assumes "scripted lab L notebook"
  shows "prefix (List.map_filter lab (map action_of (trace w))) L"
    and "outcome w = Inr () \<Longrightarrow> List.map_filter lab (map action_of (trace w)) = L"
proof -
  from tracks_trace[OF assms[unfolded scripted_def], of w] obtain R where
    R: "foldl (expect lab) (Some L) (trace w) = Some R"
      "exn_of (outcome w) = None \<longrightarrow> R = []"
    by auto
  from foldl_expect[OF R(1)] show "prefix (List.map_filter lab (map action_of (trace w))) L"
    by (metis prefixI)
  assume "outcome w = Inr ()"
  with R(2) have "R = []" by (simp add: exn_of_def)
  with foldl_expect[OF R(1)] show "List.map_filter lab (map action_of (trace w)) = L" by simp
qed

lemma foldl_provide_None: "foldl (provide src Q U) None xs = None"
  by (induction xs) simp_all

lemma foldl_provide:
  "foldl (provide src Q U) (Some vs) new \<noteq> None \<Longrightarrow> new = xs @ e # ys \<Longrightarrow> U (action_of e) \<Longrightarrow>
     (\<exists>v\<in>set vs. Q v (action_of e)) \<or> (\<exists>g\<in>set xs. \<exists>v. src g = Some v \<and> Q v (action_of e))"
proof (induction xs arbitrary: vs new)
  case Nil
  then show ?case by (auto simp: foldl_provide_None split: if_splits)
next
  case (Cons x xs)
  from Cons.prems obtain new' where new: "new = x # new'" "new' = xs @ e # ys" by simp
  let ?vs' = "case src x of None \<Rightarrow> vs | Some v \<Rightarrow> v # vs"
  from Cons.prems(1) new have step: "provide src Q U (Some vs) x = Some ?vs'"
    by (auto simp: foldl_provide_None split: if_splits)
  with Cons.prems(1) new have "foldl (provide src Q U) (Some ?vs') new' \<noteq> None" by simp
  from Cons.IH[OF this new(2) Cons.prems(3)]
  show ?case by (auto split: option.splits)
qed

lemma supplied_trace:
  assumes "supplied src Q U notebook" "trace w = xs @ e # ys" "U (action_of e)"
  shows "\<exists>g\<in>set xs. \<exists>v. src g = Some v \<and> Q v (action_of e)"
  using tracks_trace[OF assms(1)[unfolded supplied_def], of w]
    foldl_provide[of src Q U "[]" "trace w" xs e ys] assms(2,3)
  by simp

lemma in_set_map_filter: "x \<in> set (List.map_filter f xs) \<longleftrightarrow> (\<exists>a\<in>set xs. f a = Some x)"
  by (induction xs) (auto split: option.splits)

lemma map_filter_map_option:
  "List.map_filter (\<lambda>a. map_option g (f a)) xs = map g (List.map_filter f xs)"
  by (induction xs) (auto split: option.splits)

lemma calls_to_emits:
  assumes "emits (\<lambda>a. \<forall>x. call_to f a = Some x \<longrightarrow> P x) notebook"
    and "x \<in> set (calls_to f (trace w))"
  shows "P x"
proof -
  from assms(2) obtain e where "e \<in> set (trace w)" "call_to f (action_of e) = Some x"
    by (auto simp: calls_to_def in_set_map_filter)
  with emits_trace[OF assms(1)] show ?thesis by blast
qed

lemma once:
  assumes "scripted (\<lambda>a. map_option (\<lambda>_. ()) (call_to f a)) [()] notebook"
  shows "length (calls_to f (trace w)) \<le> 1"
    and "outcome w = Inr () \<Longrightarrow> length (calls_to f (trace w)) = 1"
proof -
  have eq: "List.map_filter (\<lambda>a. map_option (\<lambda>_. ()) (call_to f a)) (map action_of (trace w))
      = map (\<lambda>_. ()) (calls_to f (trace w))"
    by (simp add: map_filter_map_option calls_to_def)
  from scripted_trace(1)[OF assms, of w] have "prefix (map (\<lambda>_. ()) (calls_to f (trace w))) [()]"
    by (simp only: eq)
  from prefix_length_le[OF this] show "length (calls_to f (trace w)) \<le> 1" by simp
  assume "outcome w = Inr ()"
  from scripted_trace(2)[OF assms this] have "map (\<lambda>_. ()) (calls_to f (trace w)) = [()]"
    by (simp only: eq)
  then show "length (calls_to f (trace w)) = 1" by (metis length_map length_Cons list.size(3) One_nat_def)
qed

lemma kw_flow:
  assumes "supplied (result_of f0) (passes f k) (\<lambda>a. call_to f a \<noteq> None) notebook"
    and "(args, kw) \<in> set (calls_to f (trace w))"
  shows "\<exists>v\<in>set (returned f0 (trace w)). map_of kw k = Some v"
proof -
  from assms(2) obtain e where e: "e \<in> set (trace w)" "call_to f (action_of e) = Some (args, kw)"
    by (auto simp: calls_to_def in_set_map_filter)
  then obtain xs ys where split: "trace w = xs @ e # ys" by (meson split_list)
  from supplied_trace[OF assms(1) split] e(2) obtain g v where
    g: "g \<in> set xs" "result_of f0 g = Some v" "passes f k v (action_of e)" by auto
  from g(1) split have "g \<in> set (trace w)" by simp
  with g(2) have "v \<in> set (returned f0 (trace w))" by (auto simp: returned_def in_set_map_filter)
  moreover from g(3) e(2) have "map_of kw k = Some v" by (simp add: passes_def)
  ultimately show ?thesis by blast
qed

lemma receiver_flow:
  assumes "supplied (result_of f0) (called_on f) (\<lambda>a. receiver_of f a \<noteq> None) notebook"
    and "self \<in> set (receivers f (trace w))"
  shows "\<exists>v\<in>set (returned f0 (trace w)). self = Some v"
proof -
  from assms(2) obtain e where e: "e \<in> set (trace w)" "receiver_of f (action_of e) = Some self"
    by (auto simp: receivers_def in_set_map_filter)
  then obtain xs ys where split: "trace w = xs @ e # ys" by (meson split_list)
  from supplied_trace[OF assms(1) split] e(2) obtain g v where
    g: "g \<in> set xs" "result_of f0 g = Some v" "called_on f v (action_of e)" by auto
  from g(1) split have "g \<in> set (trace w)" by simp
  with g(2) have "v \<in> set (returned f0 (trace w))" by (auto simp: returned_def in_set_map_filter)
  moreover from g(3) e(2) have "self = Some v" by (simp add: called_on_def)
  ultimately show ?thesis by blast
qed







lemma ex_paths: "\<exists>paths. map PyStr ps = map PyStr paths"
  by blast

text \<open>A complete run, in the world where everything works.\<close>

lemma run_ok_world: "outcome ok_world = Inr () \<and> trace ok_world =
 [Ran ''wget -c https://cdn-datasets.huggingface.co/EsperBERTo/data/oscar.eo.txt'' 0,
  Ran ''pip uninstall -y tensorflow'' 0,
  Ran ''pip install git+https://github.com/huggingface/transformers'' 0,
  Ran (''pip list | grep -E '' @ [CHR 0x27] @ ''transformers|tokenizers'' @ [CHR 0x27]) 0,
  Lib (Import ''pathlib'' [''Path'']) (Inr (PyObj 4)),
  Lib (Import ''tokenizers'' [''ByteLevelBPETokenizer'']) (Inr (PyObj 5)),
  Globbed ''.'' ''**/*.txt'' (Inr [''oscar.eo.txt'', ''notes/todo.txt'']),
  Lib (Call ''ByteLevelBPETokenizer'' None [] []) (Inr (PyObj 7)),
  Lib (Call ''tokenizer.train'' (Some (PyObj 7)) []
        [(''files'', PyList [PyStr ''oscar.eo.txt'', PyStr ''notes/todo.txt'']),
         (''vocab_size'', PyInt 52000), (''min_frequency'', PyInt 2),
         (''special_tokens'',
          PyList [PyStr ''<s>'', PyStr ''<pad>'', PyStr ''</s>'', PyStr ''<unk>'',
            PyStr ''<mask>''])])
   (Inr (PyObj 8)),
  Ran ''mkdir EsperBERTo'' 0,
  Lib (Call ''tokenizer.save_model'' (Some (PyObj 7)) [PyStr ''EsperBERTo''] [])
   (Inr (PyObj 10)),
  Lib (Import ''tokenizers.implementations'' [''ByteLevelBPETokenizer'']) (Inr (PyObj 11)),
  Lib (Import ''tokenizers.processors'' [''BertProcessing'']) (Inr (PyObj 12)),
  Lib (Call ''ByteLevelBPETokenizer'' None
        [PyStr ''./EsperBERTo/vocab.json'', PyStr ''./EsperBERTo/merges.txt''] [])
   (Inr (PyObj 13)),
  Lib (Call ''tokenizer.token_to_id'' (Some (PyObj 13)) [PyStr ''</s>''] [])
   (Inr (PyObj 14)),
  Lib (Call ''tokenizer.token_to_id'' (Some (PyObj 13)) [PyStr ''<s>''] [])
   (Inr (PyObj 15)),
  Lib (Call ''BertProcessing'' None
        [PyTuple [PyStr ''</s>'', PyObj 14], PyTuple [PyStr ''<s>'', PyObj 15]] [])
   (Inr (PyObj 16)),
  Lib (Get_attr (PyObj 13) ''_tokenizer'') (Inr (PyObj 17)),
  Lib (Set_attr (PyObj 17) ''post_processor'' (PyObj 16)) (Inr (PyObj 18)),
  Lib (Call ''tokenizer.enable_truncation'' (Some (PyObj 13)) []
        [(''max_length'', PyInt 512)])
   (Inr (PyObj 19)),
  Lib (Call ''tokenizer.encode'' (Some (PyObj 13)) [PyStr ''Mi estas Julien.''] [])
   (Inr (PyObj 20)),
  Lib (Call ''tokenizer.encode'' (Some (PyObj 13)) [PyStr ''Mi estas Julien.''] [])
   (Inr (PyObj 21)),
  Lib (Get_attr (PyObj 21) ''tokens'') (Inr (PyObj 22)),
  Lib (Import ''torch'' []) (Inr (PyObj 23)),
  Lib (Call ''torch.cuda.is_available'' None [] []) (Inr (PyObj 24)),
  Lib (Import ''transformers'' [''RobertaConfig'']) (Inr (PyObj 25)),
  Lib (Call ''RobertaConfig'' None []
        [(''vocab_size'', PyInt 52000), (''max_position_embeddings'', PyInt 514),
         (''num_attention_heads'', PyInt 12), (''num_hidden_layers'', PyInt 6),
         (''type_vocab_size'', PyInt 1)])
   (Inr (PyObj 26)),
  Lib (Import ''transformers'' [''RobertaForMaskedLM'']) (Inr (PyObj 27)),
  Lib (Call ''RobertaForMaskedLM'' None [] [(''config'', PyObj 26)]) (Inr (PyObj 28)),
  Lib (Call ''model.num_parameters'' (Some (PyObj 28)) [] []) (Inr (PyObj 29)),
  Lib (Import ''transformers'' [''LineByLineTextDataset'']) (Inr (PyObj 30)),
  Lib (Call ''LineByLineTextDataset'' None []
        [(''tokenizer'', PyObj 13), (''file_path'', PyStr ''./oscar.eo.txt''),
         (''block_size'', PyInt 128)])
   (Inr (PyObj 31)),
  Lib (Import ''transformers'' [''DataCollatorForLanguageModeling'']) (Inr (PyObj 32)),
  Lib (Call ''DataCollatorForLanguageModeling'' None []
        [(''tokenizer'', PyObj 13), (''mlm'', PyBool True),
         (''mlm_probability'', PyFloat (15 / 100))])
   (Inr (PyObj 33)),
  Lib (Import ''transformers'' [''Trainer'', ''TrainingArguments'']) (Inr (PyObj 34)),
  Lib (Call ''TrainingArguments'' None []
        [(''output_dir'', PyStr ''./EsperBERTo''), (''overwrite_output_dir'', PyBool True),
         (''num_train_epochs'', PyInt 1), (''per_gpu_train_batch_size'', PyInt 64),
         (''save_steps'', PyInt 10000), (''save_total_limit'', PyInt 2),
         (''prediction_loss_only'', PyBool True)])
   (Inr (PyObj 35)),
  Lib (Call ''Trainer'' None []
        [(''model'', PyObj 28), (''args'', PyObj 35), (''data_collator'', PyObj 33),
         (''train_dataset'', PyObj 31)])
   (Inr (PyObj 36)),
  Lib (Call ''trainer.train'' (Some (PyObj 36)) [] []) (Inr (PyObj 37)),
  Lib (Call ''trainer.save_model'' (Some (PyObj 36)) [PyStr ''./EsperBERTo''] [])
   (Inr (PyObj 38)),
  Lib (Import ''transformers'' [''pipeline'']) (Inr (PyObj 39)),
  Lib (Call ''pipeline'' None [PyStr ''fill-mask'']
        [(''model'', PyStr ''./EsperBERTo''), (''tokenizer'', PyStr ''./EsperBERTo'')])
   (Inr (PyObj 40)),
  Lib (Call ''fill_mask'' (Some (PyObj 40)) [PyStr ''La suno <mask>.''] [])
   (Inr (PyObj 41)),
  Lib (Call ''fill_mask'' (Some (PyObj 40)) [PyStr ''Jen la komenco de bela <mask>.''] [])
   (Inr (PyObj 42))]"
  (is "_ \<and> _ = ?h")
proof -
  have "\<exists>ns. notebook ok_world fresh = (Inr (), \<lparr>names = ns, history = ?h\<rparr>)"
    by (simp add: run ok_world_def)
  then show ?thesis by (auto simp: outcome_def trace_def)
qed

lemmas outcome_ok_world = run_ok_world[THEN conjunct1]
  and trace_ok_world = run_ok_world[THEN conjunct2]

section \<open>The claims\<close>

subsection \<open>The order of the steps\<close>




subsection \<open>The tokenizer-training call\<close>

lemma train_shape: "emits (\<lambda>a. \<forall>x. call_to ''tokenizer.train'' a = Some x \<longrightarrow>
    (case x of (args, kw) \<Rightarrow> args = [] \<and> (\<exists>paths. kw =
       [(''files'', PyList (map PyStr paths)), (''vocab_size'', PyInt 52000),
        (''min_frequency'', PyInt 2),
        (''special_tokens'', PyList [PyStr ''<s>'', PyStr ''<pad>'', PyStr ''</s>'',
           PyStr ''<unk>'', PyStr ''<mask>''])]))) notebook"
  unfolding emits_def cells
  by (simp add: emit_step_def ex_paths cong: tracks_cong | rule tracks_rules)+

lemma train_once:
  "scripted (\<lambda>a. map_option (\<lambda>_. ()) (call_to ''tokenizer.train'' a)) [()] notebook"
  unfolding scripted_def cells
  by (simp cong: tracks_cong | rule tracks_rules)+

text \<open>
  C1: in every world, a call to \<^verbatim>\<open>tokenizer.train\<close> has no positional argument and
  exactly the keyword arguments \<^verbatim>\<open>files\<close>, \<^verbatim>\<open>vocab_size=52000\<close>, \<^verbatim>\<open>min_frequency=2\<close>
  and \<^verbatim>\<open>special_tokens\<close>, the last being the five tokens \<^verbatim>\<open><s>\<close>, \<^verbatim>\<open><pad>\<close>, \<^verbatim>\<open></s>\<close>,
  \<^verbatim>\<open><unk>\<close>, \<^verbatim>\<open><mask>\<close> in that order.  The call is made at most once, and once in
  a run that is not ended by an exception.
\<close>

theorem tokenizer_train_call:
  "(\<forall>(args, kw) \<in> set (calls_to ''tokenizer.train'' (trace w)).
      args = [] \<and> (\<exists>paths. kw =
       [(''files'', PyList (map PyStr paths)), (''vocab_size'', PyInt 52000),
        (''min_frequency'', PyInt 2),
        (''special_tokens'', PyList [PyStr ''<s>'', PyStr ''<pad>'', PyStr ''</s>'',
           PyStr ''<unk>'', PyStr ''<mask>''])])) \<and>
   length (calls_to ''tokenizer.train'' (trace w)) \<le> 1 \<and>
   (outcome w = Inr () \<longrightarrow> length (calls_to ''tokenizer.train'' (trace w)) = 1)"
  using calls_to_emits[OF train_shape, of _ w] once[OF train_once, of w] by auto

theorem tokenizer_train_call_witness:
  "outcome ok_world = Inr () \<and>
   calls_to ''tokenizer.train'' (trace ok_world) =
     [([], [(''files'', PyList (map PyStr [''oscar.eo.txt'', ''notes/todo.txt''])),
        (''vocab_size'', PyInt 52000), (''min_frequency'', PyInt 2),
        (''special_tokens'', PyList [PyStr ''<s>'', PyStr ''<pad>'', PyStr ''</s>'',
           PyStr ''<unk>'', PyStr ''<mask>''])])] \<and>
   length (calls_to ''tokenizer.train'' (trace ok_world)) = 1"
  using tokenizer_train_call[of ok_world] outcome_ok_world
  by (simp add: trace_ok_world calls_to_def)

subsection \<open>The model-construction calls\<close>

lemma config_call: "scripted (call_to ''RobertaConfig'')
    [([], [(''vocab_size'', PyInt 52000), (''max_position_embeddings'', PyInt 514),
           (''num_attention_heads'', PyInt 12), (''num_hidden_layers'', PyInt 6),
           (''type_vocab_size'', PyInt 1)])] notebook"
  unfolding scripted_def cells
  by (simp cong: tracks_cong | rule tracks_rules)+

lemma model_once:
  "scripted (\<lambda>a. map_option (\<lambda>_. ()) (call_to ''RobertaForMaskedLM'' a)) [()] notebook"
  unfolding scripted_def cells
  by (simp cong: tracks_cong | rule tracks_rules)+

lemma config_flow:
  "supplied (result_of ''RobertaConfig'') (passes ''RobertaForMaskedLM'' ''config'')
     (\<lambda>a. call_to ''RobertaForMaskedLM'' a \<noteq> None) notebook"
  unfolding supplied_def cells
  by (simp add: passes_def cong: tracks_cong | rule tracks_rules)+

text \<open>
  C2: in every world, a call to \<^verbatim>\<open>RobertaConfig\<close> carries \<^verbatim>\<open>num_hidden_layers=6\<close>,
  \<^verbatim>\<open>num_attention_heads=12\<close>, \<^verbatim>\<open>max_position_embeddings=514\<close> and \<^verbatim>\<open>vocab_size=52000\<close>;
  it is made at most once; the model is built by \<^verbatim>\<open>RobertaForMaskedLM\<close> from a
  configuration object that \<^verbatim>\<open>RobertaConfig\<close> returned; and a run that is not ended
  by an exception makes both calls once.
\<close>

theorem roberta_config_call:
  "(\<forall>(args, kw) \<in> set (calls_to ''RobertaConfig'' (trace w)).
      map_of kw ''num_hidden_layers'' = Some (PyInt 6) \<and>
      map_of kw ''num_attention_heads'' = Some (PyInt 12) \<and>
      map_of kw ''max_position_embeddings'' = Some (PyInt 514) \<and>
      map_of kw ''vocab_size'' = Some (PyInt 52000)) \<and>
   length (calls_to ''RobertaConfig'' (trace w)) \<le> 1 \<and>
   (\<forall>(args, kw) \<in> set (calls_to ''RobertaForMaskedLM'' (trace w)).
      \<exists>config \<in> set (returned ''RobertaConfig'' (trace w)). map_of kw ''config'' = Some config) \<and>
   (outcome w = Inr () \<longrightarrow> length (calls_to ''RobertaConfig'' (trace w)) = 1 \<and>
      length (calls_to ''RobertaForMaskedLM'' (trace w)) = 1)"
proof -
  let ?X = "([], [(''vocab_size'', PyInt 52000), (''max_position_embeddings'', PyInt 514),
           (''num_attention_heads'', PyInt 12), (''num_hidden_layers'', PyInt 6),
           (''type_vocab_size'', PyInt 1)])"
  have "calls_to ''RobertaConfig'' (trace w) \<in> set (prefixes [?X])"
    using scripted_trace(1)[OF config_call, of w] by (simp only: in_set_prefixes calls_to_def)
  then have 1: "(\<forall>(args, kw) \<in> set (calls_to ''RobertaConfig'' (trace w)).
      map_of kw ''num_hidden_layers'' = Some (PyInt 6) \<and>
      map_of kw ''num_attention_heads'' = Some (PyInt 12) \<and>
      map_of kw ''max_position_embeddings'' = Some (PyInt 514) \<and>
      map_of kw ''vocab_size'' = Some (PyInt 52000)) \<and>
      length (calls_to ''RobertaConfig'' (trace w)) \<le> 1"
    by auto
  have 2: "\<forall>(args, kw) \<in> set (calls_to ''RobertaForMaskedLM'' (trace w)).
      \<exists>config \<in> set (returned ''RobertaConfig'' (trace w)). map_of kw ''config'' = Some config"
    using kw_flow[OF config_flow, of _ _ w] by blast
  have 3: "outcome w = Inr () \<longrightarrow> length (calls_to ''RobertaConfig'' (trace w)) = 1 \<and>
      length (calls_to ''RobertaForMaskedLM'' (trace w)) = 1"
    using scripted_trace(2)[OF config_call, of w] once(2)[OF model_once, of w]
    by (auto simp: calls_to_def)
  from 1 2 3 show ?thesis by blast
qed

theorem roberta_config_call_witness:
  "outcome ok_world = Inr () \<and>
   calls_to ''RobertaConfig'' (trace ok_world) =
     [([], [(''vocab_size'', PyInt 52000), (''max_position_embeddings'', PyInt 514),
            (''num_attention_heads'', PyInt 12), (''num_hidden_layers'', PyInt 6),
            (''type_vocab_size'', PyInt 1)])] \<and>
   returned ''RobertaConfig'' (trace ok_world) = [PyObj 26] \<and>
   calls_to ''RobertaForMaskedLM'' (trace ok_world) = [([], [(''config'', PyObj 26)])]"
  using roberta_config_call[of ok_world] outcome_ok_world
  by (simp add: trace_ok_world calls_to_def returned_def)

lemma call_to_SomeD:
  "call_to f a = Some (args, kw) \<Longrightarrow> \<exists>self. a = Library (Call f self args kw)"
  by (induction f a rule: call_to.induct) (auto split: if_splits)

lemma no_hidden_size: "emits (\<lambda>a. \<forall>f self args kw. a = Library (Call f self args kw) \<longrightarrow>
    ''hidden_size'' \<notin> fst ` set kw) notebook"
  unfolding emits_def cells
  by (simp add: emit_step_def ex_paths cong: tracks_cong | rule tracks_rules)+

text \<open>
  C3, as stated, fails: in the world where everything works the one call to
  \<^verbatim>\<open>RobertaConfig\<close> has no keyword argument \<^verbatim>\<open>hidden_size\<close>.
\<close>

theorem hidden_size_counterexample:
  "calls_to ''RobertaConfig'' (trace ok_world) =
     [([], [(''vocab_size'', PyInt 52000), (''max_position_embeddings'', PyInt 514),
            (''num_attention_heads'', PyInt 12), (''num_hidden_layers'', PyInt 6),
            (''type_vocab_size'', PyInt 1)])] \<and>
   map_of [(''vocab_size'', PyInt 52000), (''max_position_embeddings'', PyInt 514),
            (''num_attention_heads'', PyInt 12), (''num_hidden_layers'', PyInt 6),
            (''type_vocab_size'', PyInt 1)] ''hidden_size'' = None"
  by (simp add: trace_ok_world calls_to_def)

text \<open>
  C3, amended: no call of the notebook, to any callee, passes a keyword argument
  \<^verbatim>\<open>hidden_size\<close>, and \<^verbatim>\<open>RobertaConfig\<close> is called with no positional argument and
  exactly the keywords \<^verbatim>\<open>vocab_size\<close>, \<^verbatim>\<open>max_position_embeddings\<close>,
  \<^verbatim>\<open>num_attention_heads\<close>, \<^verbatim>\<open>num_hidden_layers\<close>, \<^verbatim>\<open>type_vocab_size\<close>.  The hidden size
  of the model is left to the library.
\<close>

theorem hidden_size_not_passed:
  "(\<forall>(args, kw) \<in> set (calls_to f (trace w)). ''hidden_size'' \<notin> fst ` set kw) \<and>
   (\<forall>(args, kw) \<in> set (calls_to ''RobertaConfig'' (trace w)). args = [] \<and>
      map fst kw = [''vocab_size'', ''max_position_embeddings'', ''num_attention_heads'',
                    ''num_hidden_layers'', ''type_vocab_size''])"
proof -
  have "''hidden_size'' \<notin> fst ` set kw" if "(args, kw) \<in> set (calls_to f (trace w))" for args kw
  proof -
    from that obtain e where e: "e \<in> set (trace w)" "call_to f (action_of e) = Some (args, kw)"
      by (auto simp: calls_to_def in_set_map_filter)
    from call_to_SomeD[OF e(2)] obtain self where "action_of e = Library (Call f self args kw)" ..
    with emits_trace[OF no_hidden_size e(1)] show ?thesis by blast
  qed
  moreover have "calls_to ''RobertaConfig'' (trace w) \<in> set (prefixes
      [([], [(''vocab_size'', PyInt 52000), (''max_position_embeddings'', PyInt 514),
           (''num_attention_heads'', PyInt 12), (''num_hidden_layers'', PyInt 6),
           (''type_vocab_size'', PyInt 1)])])"
    using scripted_trace(1)[OF config_call, of w] by (simp only: in_set_prefixes calls_to_def)
  then have "\<forall>(args, kw) \<in> set (calls_to ''RobertaConfig'' (trace w)). args = [] \<and>
      map fst kw = [''vocab_size'', ''max_position_embeddings'', ''num_attention_heads'',
                    ''num_hidden_layers'', ''type_vocab_size'']"
    by auto
  ultimately show ?thesis by blast
qed

theorem hidden_size_not_passed_witness:
  "([], [(''vocab_size'', PyInt 52000), (''max_position_embeddings'', PyInt 514),
         (''num_attention_heads'', PyInt 12), (''num_hidden_layers'', PyInt 6),
         (''type_vocab_size'', PyInt 1)]) \<in> set (calls_to ''RobertaConfig'' (trace ok_world)) \<and>
   ''hidden_size'' \<notin> fst ` set [(''vocab_size'', PyInt 52000),
         (''max_position_embeddings'', PyInt 514),
         (''num_attention_heads'', PyInt 12), (''num_hidden_layers'', PyInt 6),
         (''type_vocab_size'', PyInt 1)]"
  using hidden_size_not_passed[of "''RobertaConfig''" ok_world]
  by (simp add: trace_ok_world calls_to_def)

subsection \<open>The training configuration\<close>

lemma collator_shape: "emits (\<lambda>a. \<forall>x. call_to ''DataCollatorForLanguageModeling'' a = Some x \<longrightarrow>
    (case x of (args, kw) \<Rightarrow> args = [] \<and> (\<exists>tokenizer. kw =
       [(''tokenizer'', tokenizer), (''mlm'', PyBool True),
        (''mlm_probability'', PyFloat (15 / 100))]))) notebook"
  unfolding emits_def cells
  by (simp add: emit_step_def ex_paths cong: tracks_cong | rule tracks_rules)+

lemma collator_once: "scripted
    (\<lambda>a. map_option (\<lambda>_. ()) (call_to ''DataCollatorForLanguageModeling'' a)) [()] notebook"
  unfolding scripted_def cells
  by (simp cong: tracks_cong | rule tracks_rules)+

lemma training_arguments_call: "scripted (call_to ''TrainingArguments'')
    [([], [(''output_dir'', PyStr ''./EsperBERTo''), (''overwrite_output_dir'', PyBool True),
           (''num_train_epochs'', PyInt 1), (''per_gpu_train_batch_size'', PyInt 64),
           (''save_steps'', PyInt 10000), (''save_total_limit'', PyInt 2),
           (''prediction_loss_only'', PyBool True)])] notebook"
  unfolding scripted_def cells
  by (simp cong: tracks_cong | rule tracks_rules)+

lemma trainer_once:
  "scripted (\<lambda>a. map_option (\<lambda>_. ()) (call_to ''Trainer'' a)) [()] notebook"
  unfolding scripted_def cells
  by (simp cong: tracks_cong | rule tracks_rules)+

lemma trainer_train_call: "scripted (call_to ''trainer.train'') [([], [])] notebook"
  unfolding scripted_def cells
  by (simp cong: tracks_cong | rule tracks_rules)+

lemma args_flow:
  "supplied (result_of ''TrainingArguments'') (passes ''Trainer'' ''args'')
     (\<lambda>a. call_to ''Trainer'' a \<noteq> None) notebook"
  unfolding supplied_def cells
  by (simp add: passes_def cong: tracks_cong | rule tracks_rules)+

lemma collator_flow:
  "supplied (result_of ''DataCollatorForLanguageModeling'') (passes ''Trainer'' ''data_collator'')
     (\<lambda>a. call_to ''Trainer'' a \<noteq> None) notebook"
  unfolding supplied_def cells
  by (simp add: passes_def cong: tracks_cong | rule tracks_rules)+

lemma trainer_flow:
  "supplied (result_of ''Trainer'') (called_on ''trainer.train'')
     (\<lambda>a. receiver_of ''trainer.train'' a \<noteq> None) notebook"
  unfolding supplied_def cells
  by (simp add: called_on_def cong: tracks_cong | rule tracks_rules)+

text \<open>
  C4: in every world, the data collator is made with \<^verbatim>\<open>mlm=True\<close> and
  \<^verbatim>\<open>mlm_probability=0.15\<close>, the training arguments with \<^verbatim>\<open>num_train_epochs=1\<close> and
  \<^verbatim>\<open>per_gpu_train_batch_size=64\<close>; the \<^verbatim>\<open>Trainer\<close> receives as \<^verbatim>\<open>args\<close> an object that
  \<^verbatim>\<open>TrainingArguments\<close> returned and as \<^verbatim>\<open>data_collator\<close> an object that
  \<^verbatim>\<open>DataCollatorForLanguageModeling\<close> returned; \<^verbatim>\<open>train\<close> is called on an object that
  \<^verbatim>\<open>Trainer\<close> returned.  Each of the four calls is made at most once, and once in a
  run that is not ended by an exception.
\<close>

theorem training_configuration:
  "(\<forall>(args, kw) \<in> set (calls_to ''DataCollatorForLanguageModeling'' (trace w)).
      map_of kw ''mlm'' = Some (PyBool True) \<and>
      map_of kw ''mlm_probability'' = Some (PyFloat (15 / 100))) \<and>
   (\<forall>(args, kw) \<in> set (calls_to ''TrainingArguments'' (trace w)).
      map_of kw ''num_train_epochs'' = Some (PyInt 1) \<and>
      map_of kw ''per_gpu_train_batch_size'' = Some (PyInt 64)) \<and>
   (\<forall>(args, kw) \<in> set (calls_to ''Trainer'' (trace w)).
      (\<exists>training_args \<in> set (returned ''TrainingArguments'' (trace w)).
         map_of kw ''args'' = Some training_args) \<and>
      (\<exists>data_collator \<in> set (returned ''DataCollatorForLanguageModeling'' (trace w)).
         map_of kw ''data_collator'' = Some data_collator)) \<and>
   (\<forall>self \<in> set (receivers ''trainer.train'' (trace w)).
      \<exists>trainer \<in> set (returned ''Trainer'' (trace w)). self = Some trainer) \<and>
   length (calls_to ''DataCollatorForLanguageModeling'' (trace w)) \<le> 1 \<and>
   length (calls_to ''TrainingArguments'' (trace w)) \<le> 1 \<and>
   length (calls_to ''Trainer'' (trace w)) \<le> 1 \<and>
   length (calls_to ''trainer.train'' (trace w)) \<le> 1 \<and>
   (outcome w = Inr () \<longrightarrow>
      length (calls_to ''DataCollatorForLanguageModeling'' (trace w)) = 1 \<and>
      length (calls_to ''TrainingArguments'' (trace w)) = 1 \<and>
      length (calls_to ''Trainer'' (trace w)) = 1 \<and>
      length (calls_to ''trainer.train'' (trace w)) = 1)"
proof -
  have 1: "\<forall>(args, kw) \<in> set (calls_to ''DataCollatorForLanguageModeling'' (trace w)).
      map_of kw ''mlm'' = Some (PyBool True) \<and>
      map_of kw ''mlm_probability'' = Some (PyFloat (15 / 100))"
  proof (clarify)
    fix args kw assume "(args, kw) \<in> set (calls_to ''DataCollatorForLanguageModeling'' (trace w))"
    from calls_to_emits[OF collator_shape this] obtain tokenizer where
      "kw = [(''tokenizer'', tokenizer), (''mlm'', PyBool True),
             (''mlm_probability'', PyFloat (15 / 100))]"
      by auto
    then show "map_of kw ''mlm'' = Some (PyBool True) \<and>
      map_of kw ''mlm_probability'' = Some (PyFloat (15 / 100))"
      by simp
  qed
  have "calls_to ''TrainingArguments'' (trace w) \<in> set (prefixes
    [([], [(''output_dir'', PyStr ''./EsperBERTo''), (''overwrite_output_dir'', PyBool True),
           (''num_train_epochs'', PyInt 1), (''per_gpu_train_batch_size'', PyInt 64),
           (''save_steps'', PyInt 10000), (''save_total_limit'', PyInt 2),
           (''prediction_loss_only'', PyBool True)])])"
    using scripted_trace(1)[OF training_arguments_call, of w]
    by (simp only: in_set_prefixes calls_to_def)
  then have 2: "(\<forall>(args, kw) \<in> set (calls_to ''TrainingArguments'' (trace w)).
      map_of kw ''num_train_epochs'' = Some (PyInt 1) \<and>
      map_of kw ''per_gpu_train_batch_size'' = Some (PyInt 64)) \<and>
      length (calls_to ''TrainingArguments'' (trace w)) \<le> 1"
    by auto
  have 3: "\<forall>(args, kw) \<in> set (calls_to ''Trainer'' (trace w)).
      (\<exists>training_args \<in> set (returned ''TrainingArguments'' (trace w)).
         map_of kw ''args'' = Some training_args) \<and>
      (\<exists>data_collator \<in> set (returned ''DataCollatorForLanguageModeling'' (trace w)).
         map_of kw ''data_collator'' = Some data_collator)"
    using kw_flow[OF args_flow, of _ _ w] kw_flow[OF collator_flow, of _ _ w] by blast
  have 4: "\<forall>self \<in> set (receivers ''trainer.train'' (trace w)).
      \<exists>trainer \<in> set (returned ''Trainer'' (trace w)). self = Some trainer"
    using receiver_flow[OF trainer_flow, of _ w] by blast
  have "calls_to ''trainer.train'' (trace w) \<in> set (prefixes [([], [])])"
    using scripted_trace(1)[OF trainer_train_call, of w]
    by (simp only: in_set_prefixes calls_to_def)
  then have 5: "length (calls_to ''trainer.train'' (trace w)) \<le> 1"
    by auto
  have 6: "outcome w = Inr () \<longrightarrow>
      length (calls_to ''DataCollatorForLanguageModeling'' (trace w)) = 1 \<and>
      length (calls_to ''TrainingArguments'' (trace w)) = 1 \<and>
      length (calls_to ''Trainer'' (trace w)) = 1 \<and>
      length (calls_to ''trainer.train'' (trace w)) = 1"
    using once(2)[OF collator_once, of w] once(2)[OF trainer_once, of w]
      scripted_trace(2)[OF training_arguments_call, of w]
      scripted_trace(2)[OF trainer_train_call, of w]
    by (auto simp: calls_to_def)
  from 1 2 3 4 5 6 once(1)[OF collator_once, of w] once(1)[OF trainer_once, of w]
  show ?thesis by blast
qed

theorem training_configuration_witness:
  "outcome ok_world = Inr () \<and>
   calls_to ''DataCollatorForLanguageModeling'' (trace ok_world) =
     [([], [(''tokenizer'', PyObj 13), (''mlm'', PyBool True),
            (''mlm_probability'', PyFloat (15 / 100))])] \<and>
   returned ''DataCollatorForLanguageModeling'' (trace ok_world) = [PyObj 33] \<and>
   calls_to ''TrainingArguments'' (trace ok_world) =
     [([], [(''output_dir'', PyStr ''./EsperBERTo''), (''overwrite_output_dir'', PyBool True),
            (''num_train_epochs'', PyInt 1), (''per_gpu_train_batch_size'', PyInt 64),
            (''save_steps'', PyInt 10000), (''save_total_limit'', PyInt 2),
            (''prediction_loss_only'', PyBool True)])] \<and>
   returned ''TrainingArguments'' (trace ok_world) = [PyObj 35] \<and>
   calls_to ''Trainer'' (trace ok_world) =
     [([], [(''model'', PyObj 28), (''args'', PyObj 35), (''data_collator'', PyObj 33),
            (''train_dataset'', PyObj 31)])] \<and>
   returned ''Trainer'' (trace ok_world) = [PyObj 36] \<and>
   receivers ''trainer.train'' (trace ok_world) = [Some (PyObj 36)]"
  using training_configuration[of ok_world] outcome_ok_world
  by (simp add: trace_ok_world calls_to_def returned_def receivers_def)

subsection \<open>The inference calls\<close>

lemma fill_mask_script: "scripted (call_to ''fill_mask'')
    [([PyStr ''La suno <mask>.''], []), ([PyStr ''Jen la komenco de bela <mask>.''], [])]
    notebook"
  unfolding scripted_def cells
  by (simp cong: tracks_cong | rule tracks_rules)+

lemma pipeline_call: "scripted (call_to ''pipeline'')
    [([PyStr ''fill-mask''],
      [(''model'', PyStr ''./EsperBERTo''), (''tokenizer'', PyStr ''./EsperBERTo'')])] notebook"
  unfolding scripted_def cells
  by (simp cong: tracks_cong | rule tracks_rules)+

lemma pipeline_flow:
  "supplied (result_of ''pipeline'') (called_on ''fill_mask'')
     (\<lambda>a. receiver_of ''fill_mask'' a \<noteq> None) notebook"
  unfolding supplied_def cells
  by (simp add: called_on_def cong: tracks_cong | rule tracks_rules)+

text \<open>
  C6: in every world, the calls to \<^verbatim>\<open>fill_mask\<close> are an initial part of the two calls
  with the sentences \<^verbatim>\<open>La suno <mask>.\<close> and \<^verbatim>\<open>Jen la komenco de bela <mask>.\<close>, and
  exactly these two, in this order, in a run that is not ended by an exception; each
  call has one sentence as its only argument, and the sentence contains the token
  \<^verbatim>\<open><mask>\<close> once; the callee is an object returned by \<^verbatim>\<open>pipeline\<close>, called for the
  task \<^verbatim>\<open>fill-mask\<close>.
\<close>

theorem fill_mask_sentences:
  "prefix (calls_to ''fill_mask'' (trace w))
     [([PyStr ''La suno <mask>.''], []), ([PyStr ''Jen la komenco de bela <mask>.''], [])] \<and>
   (outcome w = Inr () \<longrightarrow> calls_to ''fill_mask'' (trace w) =
     [([PyStr ''La suno <mask>.''], []), ([PyStr ''Jen la komenco de bela <mask>.''], [])]) \<and>
   (\<forall>(args, kw) \<in> set (calls_to ''fill_mask'' (trace w)).
      \<exists>sentence. args = [PyStr sentence] \<and> kw = [] \<and> count_token ''<mask>'' sentence = 1) \<and>
   (\<forall>self \<in> set (receivers ''fill_mask'' (trace w)).
      \<exists>fill_mask \<in> set (returned ''pipeline'' (trace w)). self = Some fill_mask) \<and>
   (\<forall>(args, kw) \<in> set (calls_to ''pipeline'' (trace w)). args = [PyStr ''fill-mask''])"
proof -
  have 1: "prefix (calls_to ''fill_mask'' (trace w))
     [([PyStr ''La suno <mask>.''], []), ([PyStr ''Jen la komenco de bela <mask>.''], [])]"
    using scripted_trace(1)[OF fill_mask_script, of w] by (simp only: calls_to_def)
  then have "calls_to ''fill_mask'' (trace w) \<in> set (prefixes
     [([PyStr ''La suno <mask>.''], []), ([PyStr ''Jen la komenco de bela <mask>.''], [])])"
    by (simp only: in_set_prefixes)
  then have 2: "\<forall>(args, kw) \<in> set (calls_to ''fill_mask'' (trace w)).
      \<exists>sentence. args = [PyStr sentence] \<and> kw = [] \<and> count_token ''<mask>'' sentence = 1"
    by auto
  have 3: "outcome w = Inr () \<longrightarrow> calls_to ''fill_mask'' (trace w) =
     [([PyStr ''La suno <mask>.''], []), ([PyStr ''Jen la komenco de bela <mask>.''], [])]"
    using scripted_trace(2)[OF fill_mask_script, of w] by (simp only: calls_to_def) blast
  have 4: "\<forall>self \<in> set (receivers ''fill_mask'' (trace w)).
      \<exists>fill_mask \<in> set (returned ''pipeline'' (trace w)). self = Some fill_mask"
    using receiver_flow[OF pipeline_flow, of _ w] by blast
  have "calls_to ''pipeline'' (trace w) \<in> set (prefixes [([PyStr ''fill-mask''],
      [(''model'', PyStr ''./EsperBERTo''), (''tokenizer'', PyStr ''./EsperBERTo'')])])"
    using scripted_trace(1)[OF pipeline_call, of w] by (simp only: in_set_prefixes calls_to_def)
  then have 5: "\<forall>(args, kw) \<in> set (calls_to ''pipeline'' (trace w)). args = [PyStr ''fill-mask'']"
    by auto
  from 1 2 3 4 5 show ?thesis by blast
qed

theorem fill_mask_sentences_witness:
  "outcome ok_world = Inr () \<and>
   calls_to ''fill_mask'' (trace ok_world) =
     [([PyStr ''La suno <mask>.''], []), ([PyStr ''Jen la komenco de bela <mask>.''], [])] \<and>
   count_token ''<mask>'' ''La suno <mask>.'' = 1 \<and>
   count_token ''<mask>'' ''Jen la komenco de bela <mask>.'' = 1 \<and>
   receivers ''fill_mask'' (trace ok_world) = [Some (PyObj 40), Some (PyObj 40)] \<and>
   returned ''pipeline'' (trace ok_world) = [PyObj 40] \<and>
   calls_to ''pipeline'' (trace ok_world) = [([PyStr ''fill-mask''],
      [(''model'', PyStr ''./EsperBERTo''), (''tokenizer'', PyStr ''./EsperBERTo'')])]"
  using fill_mask_sentences[of ok_world] outcome_ok_world
  by (simp add: trace_ok_world calls_to_def returned_def receivers_def)

subsection \<open>Failures\<close>








text \<open>The run in the world without the tokenizers library: the \<^verbatim>\<open>%%time\<close> cell is left at
  the import, \<^verbatim>\<open>mkdir\<close> is run, and \<^verbatim>\<open>tokenizer.save_model\<close> finds \<^verbatim>\<open>tokenizer\<close> unbound.\<close>

lemma run_no_tokenizers_world: "outcome no_tokenizers_world = Inl (NameError ''tokenizer'') \<and> trace no_tokenizers_world =
 [Ran ''wget -c https://cdn-datasets.huggingface.co/EsperBERTo/data/oscar.eo.txt'' 0,
  Ran ''pip uninstall -y tensorflow'' 0,
  Ran ''pip install git+https://github.com/huggingface/transformers'' 0,
  Ran (''pip list | grep -E '' @ [CHR 0x27] @ ''transformers|tokenizers'' @ [CHR 0x27]) 0,
  Lib (Import ''pathlib'' [''Path'']) (Inr (PyObj 4)),
  Lib (Import ''tokenizers'' [''ByteLevelBPETokenizer''])
   (Inl (Exception ''ModuleNotFoundError'')),
  Ran ''mkdir EsperBERTo'' 0]"
  (is "_ \<and> _ = ?h")
proof -
  have "\<exists>ns. notebook no_tokenizers_world fresh = (Inl (NameError ''tokenizer''), \<lparr>names = ns, history = ?h\<rparr>)"
    by (simp add: run no_tokenizers_world_def)
  then show ?thesis by (auto simp: outcome_def trace_def)
qed

lemmas outcome_no_tokenizers_world = run_no_tokenizers_world[THEN conjunct1]
  and trace_no_tokenizers_world = run_no_tokenizers_world[THEN conjunct2]




subsection \<open>The files the tokenizer is trained on\<close>

lemma listing_flow: "supplied (listing_of ''.'' ''**/*.txt'')
     (\<lambda>paths. passes ''tokenizer.train'' ''files'' (PyList (map PyStr paths)))
     (\<lambda>a. call_to ''tokenizer.train'' a \<noteq> None) notebook"
  unfolding supplied_def cells
  by (simp add: passes_def cong: tracks_cong | rule tracks_rules)+

lemma listing_script: "scripted listing [(''.'', ''**/*.txt'')] notebook"
  unfolding scripted_def cells
  by (simp cong: tracks_cong | rule tracks_rules)+

lemma listing_of_SomeD: "listing_of d p e = Some paths \<Longrightarrow> e = Globbed d p (Inr paths)"
  by (induction d p e rule: listing_of.induct) (auto split: if_splits)

text \<open>
  C8: in every world, a call to \<^verbatim>\<open>tokenizer.train\<close> comes after a listing of the
  working directory \<^verbatim>\<open>.\<close> with the recursive pattern \<^verbatim>\<open>**/*.txt\<close> that returned, and
  its \<^verbatim>\<open>files\<close> argument is the whole list of paths which that listing returned, in
  the same order: every file the listing found, not only the downloaded corpus.  It
  is the only listing of the run.  (Which files the pattern matches is decided by
  \<^verbatim>\<open>pathlib\<close>, here by the world.)
\<close>

theorem training_files:
  "(\<forall>xs e ys args kw. trace w = xs @ e # ys \<longrightarrow>
      call_to ''tokenizer.train'' (action_of e) = Some (args, kw) \<longrightarrow>
      (\<exists>paths. Globbed ''.'' ''**/*.txt'' (Inr paths) \<in> set xs \<and>
         map_of kw ''files'' = Some (PyList (map PyStr paths)))) \<and>
   prefix (listings (trace w)) [(''.'', ''**/*.txt'')]"
proof -
  have "\<exists>paths. Globbed ''.'' ''**/*.txt'' (Inr paths) \<in> set xs \<and>
         map_of kw ''files'' = Some (PyList (map PyStr paths))"
    if split: "trace w = xs @ e # ys"
      and call: "call_to ''tokenizer.train'' (action_of e) = Some (args, kw)"
    for xs e ys args kw
  proof -
    from supplied_trace[OF listing_flow split] call obtain g paths where
      g: "g \<in> set xs" "listing_of ''.'' ''**/*.txt'' g = Some paths"
        "passes ''tokenizer.train'' ''files'' (PyList (map PyStr paths)) (action_of e)"
      by auto
    from listing_of_SomeD[OF g(2)] g(1) have "Globbed ''.'' ''**/*.txt'' (Inr paths) \<in> set xs"
      by simp
    moreover from g(3) call have "map_of kw ''files'' = Some (PyList (map PyStr paths))"
      by (simp add: passes_def)
    ultimately show ?thesis by blast
  qed
  moreover have "prefix (listings (trace w)) [(''.'', ''**/*.txt'')]"
    using scripted_trace(1)[OF listing_script, of w] by (simp only: listings_def)
  ultimately show ?thesis by blast
qed

theorem training_files_witness:
  "trace ok_world = take 8 (trace ok_world) @ trace ok_world ! 8 # drop 9 (trace ok_world) \<and>
   call_to ''tokenizer.train'' (action_of (trace ok_world ! 8)) =
     Some ([], [(''files'', PyList [PyStr ''oscar.eo.txt'', PyStr ''notes/todo.txt'']),
        (''vocab_size'', PyInt 52000), (''min_frequency'', PyInt 2),
        (''special_tokens'', PyList [PyStr ''<s>'', PyStr ''<pad>'', PyStr ''</s>'',
           PyStr ''<unk>'', PyStr ''<mask>''])]) \<and>
   Globbed ''.'' ''**/*.txt'' (Inr [''oscar.eo.txt'', ''notes/todo.txt''])
     \<in> set (take 8 (trace ok_world)) \<and>
   listings (trace ok_world) = [(''.'', ''**/*.txt'')]"
  using training_files[of ok_world]
  by (simp add: trace_ok_world listings_def)

subsection \<open>What the notebook hands to the tokenizer\<close>

text \<open>
  How the libraries act on their arguments is not part of the repository.  For the
  reloaded tokenizer the notebook fixes this much: the post-processor is made by
  \<^verbatim>\<open>BertProcessing\<close> from the pair for \<^verbatim>\<open></s>\<close> first and the pair for \<^verbatim>\<open><s>\<close> second,
  and truncation is enabled once, with \<^verbatim>\<open>max_length=512\<close>.
\<close>

lemma post_processor_call: "emits (\<lambda>a. \<forall>x. call_to ''BertProcessing'' a = Some x \<longrightarrow>
    (case x of (args, kw) \<Rightarrow> kw = [] \<and> (\<exists>sep_id cls_id. args =
       [PyTuple [PyStr ''</s>'', sep_id], PyTuple [PyStr ''<s>'', cls_id]]))) notebook"
  unfolding emits_def cells
  by (simp add: emit_step_def ex_paths cong: tracks_cong | rule tracks_rules)+

lemma truncation_call: "scripted (call_to ''tokenizer.enable_truncation'')
    [([], [(''max_length'', PyInt 512)])] notebook"
  unfolding scripted_def cells
  by (simp cong: tracks_cong | rule tracks_rules)+

end
